theory Spec2Isabelle
  imports Complex_Main
begin

section \<open>The machinery worker: task invocation and orchestration\<close>

text \<open>
  A shallow embedding of \<^verbatim>\<open>v1/tasks/task.go\<close> (\<^verbatim>\<open>New\<close>, \<^verbatim>\<open>ReflectArgs\<close>, \<^verbatim>\<open>Call\<close>),
  \<^verbatim>\<open>v1/tasks/signature.go\<close> and \<^verbatim>\<open>v1/worker.go\<close> (\<^verbatim>\<open>Process\<close>, \<^verbatim>\<open>taskRetry\<close>,
  \<^verbatim>\<open>retryTaskIn\<close>, \<^verbatim>\<open>taskSucceeded\<close>, \<^verbatim>\<open>taskFailed\<close>).

  Conventions. A Go panic is a value: a function that can panic returns \<open>Panic p\<close> or
  \<open>Return x\<close>. Go's \<^verbatim>\<open>int\<close> is taken to be 64 bits wide and is an \<open>int\<close> here; the one
  place where the source multiplies in \<^verbatim>\<open>int64\<close> (\<^verbatim>\<open>time.Second * time.Duration(n)\<close>)
  has its wrap-around written out. Instants and durations are nanosecond counts.
  The \<^verbatim>\<open>go.mod\<close> of the repository has no \<^verbatim>\<open>go\<close> line, so \<^verbatim>\<open>panic(nil)\<close> is what it
  was before Go 1.21: \<^verbatim>\<open>recover()\<close> returns nil for it.
  The broker, the result backend and the registry of the server are not part of the
  sources: they are an environment whose answers are given, and every call made to them
  is recorded in a trace.
\<close>

subsection \<open>Types and dynamic values (package reflect, as far as the sources use it)\<close>

datatype kind =
    KInvalid | KBool | KInt | KInt8 | KInt16 | KInt32 | KInt64
  | KUint | KUint8 | KUint16 | KUint32 | KUint64 | KUintptr
  | KFloat32 | KFloat64 | KComplex64 | KComplex128
  | KArray | KChan | KFunc | KInterface | KMap | KPtr | KSlice | KString | KStruct
  | KUnsafePointer

text \<open>
  A declared (static) type, as \<^verbatim>\<open>reflect.Type\<close> shows it to the sources: \<^verbatim>\<open>String()\<close>,
  \<^verbatim>\<open>Kind()\<close>, \<^verbatim>\<open>Implements(error)\<close>, \<^verbatim>\<open>Implements(Retriable)\<close> and the answer of
  \<^verbatim>\<open>IsContextType\<close>.
\<close>

record gotype =
  type_name :: string
  type_kind :: kind
  implements_error :: bool
  implements_retriable :: bool
  is_context :: bool

text \<open>A float64: a finite value (a real number here), an infinity or a NaN.\<close>

datatype float64 = Finite real | PosInf | NegInf | NaN

text \<open>
  Modelled from the spec: \<^verbatim>\<open>errors.go\<close> (the declarations of \<^verbatim>\<open>ErrRetryTaskLater\<close>,
  \<^verbatim>\<open>Retriable\<close>, \<^verbatim>\<open>ErrTaskReturnsNoValue\<close> and \<^verbatim>\<open>ErrLastReturnValueMustBeError\<close>) is
  missing. \<open>ErrRetryTaskLater msg d\<close> is the spec's \<open>RetryLaterError(d)\<close>, an error
  carrying the duration that \<^verbatim>\<open>RetryIn()\<close> returns, built by
  \<^verbatim>\<open>NewErrRetryTaskLater(msg, d)\<close>; the other two are the spec's \<open>ReturnsNoValueError\<close>
  and \<open>LastReturnMustBeErrorError\<close>.

  The other error values: \<open>ErrTaskPanicked\<close> is the variable of \<^verbatim>\<open>task.go\<close> (package-level
  errors are compared by identity in Go, so they are values of their own);
  \<open>ErrorString\<close> is what \<^verbatim>\<open>errors.New\<close> and \<^verbatim>\<open>fmt.Errorf\<close> build at run time;
  \<open>ValueError\<close> is \<^verbatim>\<open>*reflect.ValueError\<close>; \<open>MemoryError\<close> is the \<^verbatim>\<open>runtime.Error\<close> of a
  nil dereference and \<open>TypeAssertionError\<close> the one of a failed type assertion, with its
  text; \<open>OtherError\<close> is any other error value, given by its type name, the kind of its
  type and its \<^verbatim>\<open>Error()\<close> text.
\<close>

datatype error =
    ErrRetryTaskLater string int
  | ErrTaskPanicked
  | ErrTaskReturnsNoValue
  | ErrLastReturnValueMustBeError
  | ErrorString string
  | ValueError string kind
  | MemoryError
  | TypeAssertionError string
  | OtherError string kind string

datatype "context" = Background | ContextWithSpan "context" string

text \<open>
  A value of type \<^verbatim>\<open>interface{}\<close>. \<open>VNil\<close> is the nil interface. \<open>VOther name k isnil\<close>
  is any value of a type that does not implement \<^verbatim>\<open>error\<close> and is none of the other
  cases: \<open>name\<close> and \<open>k\<close> are its dynamic type's \<^verbatim>\<open>String()\<close> and \<^verbatim>\<open>Kind()\<close>, and
  \<open>isnil\<close> holds when it is the nil of a chan, func, map, pointer or slice type.
\<close>

datatype val =
    VNil
  | VBool bool
  | VInt int
  | VFloat64 float64
  | VString string
  | VError error
  | VContext "context"
  | VOther string kind bool

text \<open>What \<^verbatim>\<open>panic\<close> was called with, as the type switch of \<^verbatim>\<open>Call\<close> tells values apart.\<close>

datatype panic_value = PanicError error | PanicString string | PanicOther val

text \<open>\<^verbatim>\<open>panic(nil)\<close>: the value for which \<^verbatim>\<open>recover()\<close> returns nil.\<close>

definition PanicNil :: panic_value where
  "PanicNil = PanicOther VNil"

datatype 'a go = Panic panic_value | Return 'a

definition nil_pointer_dereference :: panic_value where
  "nil_pointer_dereference = PanicError MemoryError"

text \<open>\<^verbatim>\<open>reflect.TypeOf(v)\<close>: name and kind of the dynamic type; \<open>None\<close> is the nil \<^verbatim>\<open>Type\<close>.\<close>

fun error_type :: "error \<Rightarrow> string \<times> kind" where
  "error_type (ErrRetryTaskLater m d) = (''tasks.ErrRetryTaskLater'', KStruct)"
| "error_type ErrTaskPanicked = (''*errors.errorString'', KPtr)"
| "error_type ErrTaskReturnsNoValue = (''*errors.errorString'', KPtr)"
| "error_type ErrLastReturnValueMustBeError = (''*errors.errorString'', KPtr)"
| "error_type (ErrorString s) = (''*errors.errorString'', KPtr)"
| "error_type (ValueError m k) = (''*reflect.ValueError'', KPtr)"
| "error_type MemoryError = (''runtime.errorString'', KString)"
| "error_type (TypeAssertionError s) = (''*runtime.TypeAssertionError'', KPtr)"
| "error_type (OtherError n k s) = (n, k)"

fun TypeOf :: "val \<Rightarrow> (string \<times> kind) option" where
  "TypeOf VNil = None"
| "TypeOf (VBool b) = Some (''bool'', KBool)"
| "TypeOf (VInt i) = Some (''int'', KInt)"
| "TypeOf (VFloat64 f) = Some (''float64'', KFloat64)"
| "TypeOf (VString s) = Some (''string'', KString)"
| "TypeOf (VError e) = Some (error_type e)"
| "TypeOf (VContext c) = Some (''*context.valueCtx'', KPtr)"
| "TypeOf (VOther n k b) = Some (n, k)"

text \<open>
  The panic of a failed type assertion \<^verbatim>\<open>v.(T)\<close> on a value \<open>v\<close> of type \<^verbatim>\<open>interface{}\<close>,
  to a type \<^verbatim>\<open>T\<close> that is not an interface, and to the interface \<^verbatim>\<open>error\<close>.
\<close>

definition dynamic_type_name :: "val \<Rightarrow> string" where
  "dynamic_type_name v = (case TypeOf v of None \<Rightarrow> ''nil'' | Some (n, k) \<Rightarrow> n)"

definition type_assertion_failed :: "val \<Rightarrow> string \<Rightarrow> panic_value" where
  "type_assertion_failed v target =
     PanicError (TypeAssertionError
       (''interface conversion: interface {} is '' @ dynamic_type_name v @ '', not '' @ target))"

definition error_assertion_failed :: "val \<Rightarrow> panic_value" where
  "error_assertion_failed v =
     PanicError (TypeAssertionError
       (case TypeOf v of
          None \<Rightarrow> ''interface conversion: interface is nil, not error''
        | Some (n, k) \<Rightarrow> ''interface conversion: '' @ n @ '' is not error: missing method Error''))"

subsection \<open>Decimal formatting (\<^verbatim>\<open>%d\<close>)\<close>

definition digit :: "nat \<Rightarrow> char" where
  "digit d = (if d = 0 then CHR ''0'' else if d = 1 then CHR ''1'' else if d = 2 then CHR ''2''
     else if d = 3 then CHR ''3'' else if d = 4 then CHR ''4'' else if d = 5 then CHR ''5''
     else if d = 6 then CHR ''6'' else if d = 7 then CHR ''7'' else if d = 8 then CHR ''8''
     else CHR ''9'')"

function show_nat :: "nat \<Rightarrow> string" where
  "show_nat n = (if n < 10 then [digit n] else show_nat (n div 10) @ [digit (n mod 10)])"
  by pat_completeness auto
termination
  by (relation "measure id") auto

declare show_nat.simps [simp del]

subsection \<open>Conversion of a float64 to \<^verbatim>\<open>int\<close>\<close>

text \<open>
  Go discards the fraction (truncation towards zero); when the result does not fit the
  integer type, or the operand is an infinity or a NaN, the result is implementation
  dependent: it is the parameter \<open>impl\<close>.
\<close>

definition trunc :: "real \<Rightarrow> int" where
  "trunc x = (if 0 \<le> x then \<lfloor>x\<rfloor> else \<lceil>x\<rceil>)"

definition fits_int :: "int \<Rightarrow> bool" where
  "fits_int i \<longleftrightarrow> - (2 ^ 63) \<le> i \<and> i < 2 ^ 63"

fun int_of_float64 :: "(float64 \<Rightarrow> int) \<Rightarrow> float64 \<Rightarrow> int" where
  "int_of_float64 impl (Finite x) = (if fits_int (trunc x) then trunc x else impl (Finite x))"
| "int_of_float64 impl f = impl f"

subsection \<open>Signatures (\<^verbatim>\<open>signature.go\<close>)\<close>

datatype signature = Signature
  (Task: string)
  (Id': string)
  (RoutingKey: string)
  (ETA: "int option")
  (GroupUUID: string)
  (GroupTaskCount: int)
  (Args: "val list")
  (Headers: "(string \<times> val) list")
  (Immutable: bool)
  (RetryCount: int)
  (RetryTimeout: int)
  (OnSuccess: "signature list")
  (OnError: "signature list")
  (ChordCallback: "signature option")

fun set_Args :: "val list \<Rightarrow> signature \<Rightarrow> signature" where
  "set_Args a (Signature t i rk eta g n _ h im rc rt os oe cc) =
     Signature t i rk eta g n a h im rc rt os oe cc"

fun set_ETA :: "int option \<Rightarrow> signature \<Rightarrow> signature" where
  "set_ETA eta (Signature t i rk _ g n a h im rc rt os oe cc) =
     Signature t i rk eta g n a h im rc rt os oe cc"

fun set_RetryCount :: "int \<Rightarrow> signature \<Rightarrow> signature" where
  "set_RetryCount rc (Signature t i rk eta g n a h im _ rt os oe cc) =
     Signature t i rk eta g n a h im rc rt os oe cc"

fun set_RetryTimeout :: "int \<Rightarrow> signature \<Rightarrow> signature" where
  "set_RetryTimeout rt (Signature t i rk eta g n a h im rc _ os oe cc) =
     Signature t i rk eta g n a h im rc rt os oe cc"

fun set_OnSuccess :: "signature list \<Rightarrow> signature \<Rightarrow> signature" where
  "set_OnSuccess os (Signature t i rk eta g n a h im rc rt _ oe cc) =
     Signature t i rk eta g n a h im rc rt os oe cc"

fun set_OnError :: "signature list \<Rightarrow> signature \<Rightarrow> signature" where
  "set_OnError oe (Signature t i rk eta g n a h im rc rt os _ cc) =
     Signature t i rk eta g n a h im rc rt os oe cc"

fun set_ChordCallback :: "signature option \<Rightarrow> signature \<Rightarrow> signature" where
  "set_ChordCallback cc (Signature t i rk eta g n a h im rc rt os oe _) =
     Signature t i rk eta g n a h im rc rt os oe cc"

subsection \<open>Handlers and tasks (\<^verbatim>\<open>task.go\<close>)\<close>

text \<open>
  One slot of what \<^verbatim>\<open>reflect.Value.Call\<close> returns: the declared type of that result of
  the function (\<^verbatim>\<open>Type()\<close>) and the value \<^verbatim>\<open>Interface()\<close> yields.
\<close>

record rvalue =
  rtype :: gotype
  rval :: val

datatype outcome = Panics panic_value | Returns "rvalue list"

text \<open>
  A task function as reflection sees it: its parameter types (\<^verbatim>\<open>NumIn\<close>, \<^verbatim>\<open>In(i)\<close>) and
  what \<^verbatim>\<open>reflect.Value.Call\<close> does on a list of arguments, which is either a panic (of
  the function, or of \<^verbatim>\<open>reflect\<close> itself on arguments that do not fit) or the list of
  results.
\<close>

record handler =
  In :: "gotype list"
  Invoke :: "val list \<Rightarrow> outcome"

text \<open>
  \<^verbatim>\<open>reflect.Value.Call\<close> on a function (not variadic) with the parameter types \<open>ins\<close>
  and the body \<open>f\<close>: it panics, with a string, on too few or too many arguments, on a
  nil argument (a zero \<^verbatim>\<open>Value\<close>) and on an argument that is not assignable to its
  parameter, and runs the body otherwise. A value is taken to be assignable to a
  parameter of its own type, to \<^verbatim>\<open>context.Context\<close> when it is a context, and to any
  other interface type. \<open>func ins f\<close> is the function as reflection sees it.
\<close>

definition assignable :: "val \<Rightarrow> gotype \<Rightarrow> bool" where
  "assignable v t =
     (if type_kind t = KInterface
      then (if is_context t then (case v of VContext c \<Rightarrow> True | _ \<Rightarrow> False) else True)
      else dynamic_type_name v = type_name t)"

fun not_assignable :: "val list \<Rightarrow> gotype list \<Rightarrow> (val \<times> gotype) option" where
  "not_assignable (v # vs) (t # ts) =
     (if assignable v t then not_assignable vs ts else Some (v, t))"
| "not_assignable vs ts = None"

definition reflect_Call :: "gotype list \<Rightarrow> (val list \<Rightarrow> outcome) \<Rightarrow> val list \<Rightarrow> outcome" where
  "reflect_Call ins f args =
     (if length args < length ins then Panics (PanicString ''reflect: Call with too few input arguments'')
      else if length args > length ins then Panics (PanicString ''reflect: Call with too many input arguments'')
      else if VNil \<in> set args then Panics (PanicString ''reflect: Call using zero Value argument'')
      else (case not_assignable args ins of
              Some (v, t) \<Rightarrow>
                Panics (PanicString (''reflect: Call using '' @ dynamic_type_name v @ '' as type '' @ type_name t))
            | None \<Rightarrow> f args))"

definition func :: "gotype list \<Rightarrow> (val list \<Rightarrow> outcome) \<Rightarrow> handler" where
  "func ins f = \<lparr>In = ins, Invoke = reflect_Call ins f\<rparr>"

text \<open>The field \<^verbatim>\<open>Args\<close> of a task is \<open>TaskArgs\<close> here (\<open>Args\<close> is the field of a signature).\<close>

record Task =
  TaskFunc :: handler
  UseContext :: bool
  Context :: "context"
  TaskArgs :: "val list"

text \<open>
  The loop of \<^verbatim>\<open>ReflectArgs\<close> from index \<open>i\<close> on. \<^verbatim>\<open>reflect.TypeOf(arg).Kind()\<close> is a
  nil dereference when \<open>arg\<close> is nil, and \<^verbatim>\<open>arg.(float64)\<close> fails on a value whose kind
  is float64 and whose type is not \<^verbatim>\<open>float64\<close>.
\<close>

fun construct_args :: "(float64 \<Rightarrow> int) \<Rightarrow> gotype list \<Rightarrow> nat \<Rightarrow> val list \<Rightarrow> val list go" where
  "construct_args impl ins i [] = Return []"
| "construct_args impl ins i (arg # args) =
     (case TypeOf arg of
        None \<Rightarrow> Panic nil_pointer_dereference
      | Some (n, msgType) \<Rightarrow>
          (let origType = type_kind (ins ! i) in
           case (if origType = KInt \<and> msgType = KFloat64
                 then (case arg of VFloat64 f \<Rightarrow> Return (VInt (int_of_float64 impl f))
                                 | _ \<Rightarrow> Panic (type_assertion_failed arg ''float64''))
                 else Return arg) of
             Panic p \<Rightarrow> Panic p
           | Return v \<Rightarrow>
               (case construct_args impl ins (Suc i) args of
                  Panic p \<Rightarrow> Panic p
                | Return vs \<Rightarrow> Return (v # vs))))"

definition arity_error :: "nat \<Rightarrow> nat \<Rightarrow> error" where
  "arity_error numArgs n =
     ErrorString (''Number of task arguments '' @ show_nat numArgs @
                  '' does not match number of message arguments '' @ show_nat n)"

text \<open>\<^verbatim>\<open>ReflectArgs\<close>: the error it returns, or the task with \<^verbatim>\<open>Args\<close> set.\<close>

definition ReflectArgs :: "(float64 \<Rightarrow> int) \<Rightarrow> Task \<Rightarrow> val list \<Rightarrow> handler \<Rightarrow> (error + Task) go" where
  "ReflectArgs impl t args taskFunc =
     (let numArgs = length (In taskFunc) in
      if numArgs \<noteq> length args then Return (Inl (arity_error numArgs (length args)))
      else (case construct_args impl (In taskFunc) 0 args of
              Panic p \<Rightarrow> Panic p
            | Return argValues \<Rightarrow> Return (Inr (t\<lparr>TaskArgs := argValues\<rparr>))))"

text \<open>
  \<^verbatim>\<open>IsContextType\<close> is not among the sources: its answer is the field \<open>is_context\<close> of
  the type.
\<close>

definition IsContextType :: "gotype \<Rightarrow> bool" where
  "IsContextType t = is_context t"

fun kind_String :: "kind \<Rightarrow> string" where
  "kind_String KInvalid = ''invalid''" | "kind_String KBool = ''bool''"
| "kind_String KInt = ''int''" | "kind_String KInt8 = ''int8''"
| "kind_String KInt16 = ''int16''" | "kind_String KInt32 = ''int32''"
| "kind_String KInt64 = ''int64''" | "kind_String KUint = ''uint''"
| "kind_String KUint8 = ''uint8''" | "kind_String KUint16 = ''uint16''"
| "kind_String KUint32 = ''uint32''" | "kind_String KUint64 = ''uint64''"
| "kind_String KUintptr = ''uintptr''" | "kind_String KFloat32 = ''float32''"
| "kind_String KFloat64 = ''float64''" | "kind_String KComplex64 = ''complex64''"
| "kind_String KComplex128 = ''complex128''" | "kind_String KArray = ''array''"
| "kind_String KChan = ''chan''" | "kind_String KFunc = ''func''"
| "kind_String KInterface = ''interface''" | "kind_String KMap = ''map''"
| "kind_String KPtr = ''ptr''" | "kind_String KSlice = ''slice''"
| "kind_String KString = ''string''" | "kind_String KStruct = ''struct''"
| "kind_String KUnsafePointer = ''unsafe.Pointer''"

text \<open>
  Modelled from the spec: the texts of \<^verbatim>\<open>ErrTaskReturnsNoValue\<close>,
  \<^verbatim>\<open>ErrLastReturnValueMustBeError\<close> and \<^verbatim>\<open>ErrRetryTaskLater\<close> are declared in the missing
  \<^verbatim>\<open>errors.go\<close>, and the spec gives these errors a name and no text: the texts of the
  first two are those of the library this repository derives from, the text of the third
  is its message, and no statement below depends on them. The other equations of
  \<^verbatim>\<open>err.Error()\<close> are those of \<^verbatim>\<open>task.go\<close> and of the Go library.
\<close>

fun Error :: "error \<Rightarrow> string" where
  "Error (ErrRetryTaskLater m d) = m"
| "Error ErrTaskPanicked = ''Invoking task caused a panic''"
| "Error ErrTaskReturnsNoValue = ''Task must return at least a single value''"
| "Error ErrLastReturnValueMustBeError = ''Last return value of a task must be error''"
| "Error (ErrorString s) = s"
| "Error (ValueError m k) = ''reflect: call of '' @ m @ '' on '' @ kind_String k @ '' Value''"
| "Error MemoryError = ''runtime error: invalid memory address or nil pointer dereference''"
| "Error (TypeAssertionError s) = s"
| "Error (OtherError n k s) = s"

definition New :: "(float64 \<Rightarrow> int) \<Rightarrow> handler \<Rightarrow> val list \<Rightarrow> (error + Task) go" where
  "New impl taskFunc args =
     (let task = \<lparr>TaskFunc = taskFunc, UseContext = False, Context = Background, TaskArgs = []\<rparr>;
          task = (if length (In taskFunc) > 0
                  then (if IsContextType (In taskFunc ! 0) then task\<lparr>UseContext := True\<rparr> else task)
                  else task)
      in case ReflectArgs impl task args taskFunc of
           Panic p \<Rightarrow> Panic p
         | Return (Inl err) \<Rightarrow> Return (Inl (ErrorString (''Reflect task args error: '' @ Error err)))
         | Return (Inr task') \<Rightarrow> Return (Inr task'))"

subsection \<open>\<^verbatim>\<open>Task.Call\<close>\<close>

record TaskResult =
  Type :: string
  Value :: val

datatype stackframes = NoStackFrames | CurrentStackFrames | DebugStack

text \<open>
  \<^verbatim>\<open>reflect.Value.IsNil\<close>: defined on chan, func, interface, map, pointer and slice
  values, a panic with a \<^verbatim>\<open>*reflect.ValueError\<close> on every other kind.
\<close>

definition nillable :: "kind \<Rightarrow> bool" where
  "nillable k \<longleftrightarrow> k \<in> {KChan, KFunc, KInterface, KMap, KPtr, KSlice, KUnsafePointer}"

definition IsNil :: "rvalue \<Rightarrow> bool go" where
  "IsNil v =
     (if \<not> nillable (type_kind (rtype v))
      then Panic (PanicError (ValueError ''reflect.Value.IsNil'' (type_kind (rtype v))))
      else if type_kind (rtype v) = KInterface then Return (rval v = VNil)
      else Return (case rval v of VNil \<Rightarrow> True | VOther n k isnil \<Rightarrow> isnil | _ \<Rightarrow> False))"

text \<open>The type switch of the deferred function of \<^verbatim>\<open>Call\<close>.\<close>

fun recovered :: "panic_value \<Rightarrow> error" where
  "recovered (PanicError e) = e"
| "recovered (PanicString s) = ErrorString s"
| "recovered (PanicOther v) = ErrTaskPanicked"

text \<open>
  The loop that converts \<open>results[0 .. len-2]\<close>: the task results built so far, and the
  panic that stopped the loop, if any (\<^verbatim>\<open>reflect.TypeOf(val).String()\<close> is a nil
  dereference when \<open>val\<close> is the nil interface).
\<close>

fun convert_results :: "rvalue list \<Rightarrow> TaskResult list \<times> panic_value option" where
  "convert_results [] = ([], None)"
| "convert_results (r # rs) =
     (let val = rval r in
      case TypeOf val of
        None \<Rightarrow> ([], Some nil_pointer_dereference)
      | Some (typeStr, k) \<Rightarrow>
          (case convert_results rs of
             (trs, p) \<Rightarrow> (\<lparr>Type = typeStr, Value = val\<rparr> # trs, p)))"

text \<open>
  The body of \<^verbatim>\<open>Call\<close> from the invocation on: it returns \<open>(taskResults, err)\<close>, or it
  panics, and then \<open>Raised\<close> also holds what the named result \<open>taskResults\<close> had been
  given before (its entries still unset are left out).
\<close>

datatype body = Returned "TaskResult list" "error option" | Raised panic_value "TaskResult list"

definition call_body :: "Task \<Rightarrow> val list \<Rightarrow> body" where
  "call_body t args =
     (case Invoke (TaskFunc t) args of
        Panics e \<Rightarrow> Raised e []
      | Returns results \<Rightarrow>
          if length results = 0 then Returned [] (Some ErrTaskReturnsNoValue)
          else
            (let lastResult = results ! (length results - 1) in
             case IsNil lastResult of
               Panic e \<Rightarrow> Raised e []
             | Return isnil \<Rightarrow>
                 if \<not> isnil then
                   (if implements_retriable (rtype lastResult) then
                      (case rval lastResult of
                         VError (ErrRetryTaskLater m d) \<Rightarrow> Returned [] (Some (ErrRetryTaskLater m d))
                       | v \<Rightarrow> Raised (type_assertion_failed v ''tasks.ErrRetryTaskLater'') [])
                    else if \<not> implements_error (rtype lastResult) then
                      Returned [] (Some ErrLastReturnValueMustBeError)
                    else
                      (case rval lastResult of
                         VError e \<Rightarrow> Returned [] (Some e)
                       | v \<Rightarrow> Raised (error_assertion_failed v) []))
                 else
                   (case convert_results (take (length results - 1) results) of
                      (trs, Some e) \<Rightarrow> Raised e trs
                    | (trs, None) \<Rightarrow> Returned trs None)))"

text \<open>
  \<^verbatim>\<open>Call\<close>: the context is put in front of the arguments when \<open>UseContext\<close> is set. The
  deferred function stops a panic of the body; when \<^verbatim>\<open>recover()\<close> is not nil it sets
  \<open>err\<close> and the stack frames, and when it is nil (\<^verbatim>\<open>panic(nil)\<close>) the named results are
  returned as they are. The reports of the deferred function (tracing span, bugsnag,
  log) are not modelled.
\<close>

definition call_args :: "Task \<Rightarrow> val list" where
  "call_args t = (if UseContext t then VContext (Context t) # TaskArgs t else TaskArgs t)"

definition Call :: "Task \<Rightarrow> TaskResult list \<times> error option \<times> stackframes" where
  "Call t =
     (case call_body t (call_args t) of
        Returned taskResults err \<Rightarrow> (taskResults, err, NoStackFrames)
      | Raised e taskResults \<Rightarrow>
          if e \<noteq> PanicNil then (taskResults, Some (recovered e), CurrentStackFrames)
          else (taskResults, None, NoStackFrames))"

subsection \<open>The environment of the worker\<close>

text \<open>
  Modelled from the spec: \<^verbatim>\<open>state.go\<close> (\<^verbatim>\<open>TaskState\<close>, \<^verbatim>\<open>IsSuccess\<close>) is missing. A task
  state is in one of the six states of the spec and holds the results of its task;
  \<^verbatim>\<open>IsSuccess\<close> holds in state SUCCESS.
\<close>

datatype state = PENDING | RECEIVED | STARTED | RETRY | SUCCESS | FAILURE

record TaskState =
  State :: state
  Results :: "TaskResult list"

definition IsSuccess :: "TaskState \<Rightarrow> bool" where
  "IsSuccess taskState \<longleftrightarrow> State taskState = SUCCESS"

text \<open>
  Modelled from the spec: the package \<^verbatim>\<open>retry\<close> (\<^verbatim>\<open>FibonacciNext\<close>) is missing.
  \<open>FibonacciNext t\<close> is the first number of the sequence 1, 1, 2, 3, 5, 8, ... that is
  greater than \<open>t\<close>.
\<close>

fun fibonacci :: "nat \<Rightarrow> int" where
  "fibonacci 0 = 1"
| "fibonacci (Suc 0) = 1"
| "fibonacci (Suc (Suc n)) = fibonacci n + fibonacci (Suc n)"

function fibonacci_index :: "nat \<Rightarrow> int \<Rightarrow> nat" where
  "fibonacci_index n t = (if t < fibonacci n then n else fibonacci_index (Suc n) t)"
  by pat_completeness auto
termination
proof (relation "measure (\<lambda>(n, t). nat (t + 1) - n)")
  show "wf (measure (\<lambda>(n, t). nat (t + 1) - n))" by simp
next
  fix n :: nat and t :: int
  assume "\<not> t < fibonacci n"
  moreover have "int m \<le> fibonacci m \<and> 1 \<le> fibonacci m" for m
    by (induction m rule: fibonacci.induct) auto
  then have "int n \<le> fibonacci n" by simp
  ultimately have "n < nat (t + 1)" by linarith
  then show "((Suc n, t), (n, t)) \<in> measure (\<lambda>(n, t). nat (t + 1) - n)" by simp
qed

declare fibonacci_index.simps [simp del]

definition FibonacciNext :: "int \<Rightarrow> int" where
  "FibonacciNext start = fibonacci (fibonacci_index 0 start)"

text \<open>
  The answers of the server, the backend and the broker, none of which is among the
  sources. Every operation answers as a function of its arguments, except
  \<^verbatim>\<open>TriggerChord\<close>, which reads and writes a store \<open>'b\<close> of the backend that is passed
  along. \<open>Now\<close> is the reading of the clock, \<open>int_impl\<close> the implementation-dependent
  part of the float conversion, \<open>errorHandler\<close> whether an error handler is set.
\<close>

record 'b env =
  IsTaskRegistered :: "string \<Rightarrow> bool"
  GetRegisteredTask :: "string \<Rightarrow> error + handler"
  SetStateReceived :: "signature \<Rightarrow> error option"
  SetStateStarted :: "signature \<Rightarrow> error option"
  SetStateRetry :: "signature \<Rightarrow> error option"
  SetStateSuccess :: "signature \<Rightarrow> TaskResult list \<Rightarrow> error option"
  SetStateFailure :: "signature \<Rightarrow> string \<Rightarrow> error option"
  GroupCompleted :: "string \<Rightarrow> int \<Rightarrow> error + bool"
  TriggerChord :: "string \<Rightarrow> 'b \<Rightarrow> (error + bool) \<times> 'b"
  GroupTaskStates :: "string \<Rightarrow> int \<Rightarrow> error + TaskState list"
  hasAMQPBackend :: bool
  SendTask :: "signature \<Rightarrow> error option"
  errorHandler :: bool
  Now :: int
  int_impl :: "float64 \<Rightarrow> int"

text \<open>
  The calls made to the environment, in order. The first component of \<open>E_SendTask\<close>
  tells which statement of \<^verbatim>\<open>worker.go\<close> published the signature.
\<close>

datatype site = RetrySite | SuccessCallback | ChordSite | ErrorCallback

datatype event =
    E_SetStateReceived signature
  | E_SetStateStarted signature
  | E_SetStateRetry signature
  | E_SetStateSuccess signature "TaskResult list"
  | E_SetStateFailure signature string
  | E_GroupCompleted string int
  | E_TriggerChord string
  | E_GroupTaskStates string int
  | E_PurgeGroupMeta string
  | E_SendTask site signature
  | E_errorHandler error signature stackframes
  | E_Call "val list"

subsection \<open>Time\<close>

text \<open>
  \<^verbatim>\<open>time.Duration\<close> is an \<^verbatim>\<open>int64\<close> count of nanoseconds: \<open>seconds n\<close> is
  \<^verbatim>\<open>time.Second * time.Duration(n)\<close>, a product that wraps around. An instant is an
  unbounded count of nanoseconds, and \<^verbatim>\<open>Add\<close> is addition.
\<close>

definition wrap64 :: "int \<Rightarrow> int" where
  "wrap64 x = (x + 2 ^ 63) mod 2 ^ 64 - 2 ^ 63"

definition Second :: int where
  "Second = 1000000000"

definition seconds :: "int \<Rightarrow> int" where
  "seconds n = wrap64 (Second * n)"

definition Add :: "int \<Rightarrow> int \<Rightarrow> int" where
  "Add t d = t + d"

subsection \<open>\<^verbatim>\<open>worker.go\<close>\<close>

definition state_error :: "string \<Rightarrow> string \<Rightarrow> error \<Rightarrow> error" where
  "state_error name task_id err =
     ErrorString (''Set state to '' @ [CHR 0x27] @ name @ [CHR 0x27] @ '' for task '' @ task_id @
                  '' returned error: '' @ Error err)"

definition taskRetry :: "'b env \<Rightarrow> signature \<Rightarrow> error option \<times> signature \<times> event list" where
  "taskRetry worker signature =
     (case SetStateRetry worker signature of
        Some err \<Rightarrow>
          (Some (state_error ''retry'' (Id' signature) err), signature, [E_SetStateRetry signature])
      | None \<Rightarrow>
          (let s1 = set_RetryCount (RetryCount signature - 1) signature;
               s2 = set_RetryTimeout (FibonacciNext (RetryTimeout s1)) s1;
               eta = Add (Now worker) (seconds (RetryTimeout s2));
               s3 = set_ETA (Some eta) s2
           in (SendTask worker s3, s3, [E_SetStateRetry signature, E_SendTask RetrySite s3])))"

definition retryTaskIn :: "'b env \<Rightarrow> signature \<Rightarrow> int \<Rightarrow> error option \<times> signature \<times> event list" where
  "retryTaskIn worker signature retryIn =
     (case SetStateRetry worker signature of
        Some err \<Rightarrow>
          (Some (state_error ''retry'' (Id' signature) err), signature, [E_SetStateRetry signature])
      | None \<Rightarrow>
          (let eta = Add (Now worker) retryIn;
               s1 = set_ETA (Some eta) signature
           in (SendTask worker s1, s1, [E_SetStateRetry signature, E_SendTask RetrySite s1])))"

text \<open>
  The loop over \<open>OnSuccess\<close>: the callbacks as they are published. Signatures are values
  here, so two entries of the callback lists never share their \<open>Args\<close>.
\<close>

definition success_callbacks :: "signature \<Rightarrow> TaskResult list \<Rightarrow> signature list" where
  "success_callbacks signature taskResults =
     map (\<lambda>successTask.
            if Immutable signature = False
            then set_Args (Args successTask @ map Value taskResults) successTask
            else successTask)
         (OnSuccess signature)"

text \<open>
  The loop over the task states of the group: the arguments of the chord callback when
  the loop ends, and whether it ran to its end (it returns from \<^verbatim>\<open>taskSucceeded\<close> at the
  first state that is not a success).
\<close>

fun chord_loop :: "bool \<Rightarrow> TaskState list \<Rightarrow> val list \<Rightarrow> val list \<times> bool" where
  "chord_loop immutable [] args = (args, True)"
| "chord_loop immutable (taskState # taskStates) args =
     (if \<not> IsSuccess taskState then (args, False)
      else chord_loop immutable taskStates
             (if immutable = False then args @ map Value (Results taskState) else args))"

text \<open>
  \<^verbatim>\<open>taskSucceeded\<close> in three parts, each the rest of the function from one statement
  on: \<open>send_chord\<close> from the call of \<^verbatim>\<open>GroupTaskStates\<close>, \<open>trigger_chord\<close> from the test
  of \<open>ChordCallback\<close>, and the whole function. The deferred \<^verbatim>\<open>PurgeGroupMeta\<close> runs
  when the function returns: it is appended to the calls by the whole function.
\<close>

definition send_chord ::
  "'b env \<Rightarrow> signature \<Rightarrow> signature \<Rightarrow> error option \<times> signature \<times> event list" where
  "send_chord worker signature chord =
     (let g = GroupUUID signature; n = GroupTaskCount signature in
      case GroupTaskStates worker g n of
        Inl err \<Rightarrow> (None, signature, [E_GroupTaskStates g n])
      | Inr taskStates \<Rightarrow>
          (case chord_loop (Immutable chord) taskStates (Args chord) of
             (args, False) \<Rightarrow>
               (None, set_ChordCallback (Some (set_Args args chord)) signature,
                [E_GroupTaskStates g n])
           | (args, True) \<Rightarrow>
               (let chord' = set_Args args chord in
                (SendTask worker chord', set_ChordCallback (Some chord') signature,
                 [E_GroupTaskStates g n, E_SendTask ChordSite chord']))))"

definition trigger_chord ::
  "'b env \<Rightarrow> 'b \<Rightarrow> signature \<Rightarrow> error option \<times> signature \<times> 'b \<times> event list" where
  "trigger_chord worker b signature =
     (let g = GroupUUID signature in
      case ChordCallback signature of
        None \<Rightarrow> (None, signature, b, [])
      | Some chord \<Rightarrow>
          (case TriggerChord worker g b of
             (Inl err, b') \<Rightarrow>
               (Some (ErrorString (''Triggering chord for group '' @ g @ '' returned error: '' @ Error err)),
                signature, b', [E_TriggerChord g])
           | (Inr shouldTrigger, b') \<Rightarrow>
               if \<not> shouldTrigger then (None, signature, b', [E_TriggerChord g])
               else
                 (case send_chord worker signature chord of
                    (r, s', tr) \<Rightarrow> (r, s', b', E_TriggerChord g # tr))))"

definition taskSucceeded ::
  "'b env \<Rightarrow> 'b \<Rightarrow> signature \<Rightarrow> TaskResult list \<Rightarrow> error option \<times> signature \<times> 'b \<times> event list" where
  "taskSucceeded worker b signature taskResults =
     (case SetStateSuccess worker signature taskResults of
        Some err \<Rightarrow>
          (Some (state_error ''success'' (Id' signature) err), signature, b,
           [E_SetStateSuccess signature taskResults])
      | None \<Rightarrow>
          (let cbs = success_callbacks signature taskResults;
               s1 = set_OnSuccess cbs signature;
               tr1 = E_SetStateSuccess signature taskResults # map (E_SendTask SuccessCallback) cbs;
               g = GroupUUID signature;
               n = GroupTaskCount signature
           in if g = [] then (None, s1, b, tr1)
              else
                (case GroupCompleted worker g n of
                   Inl err \<Rightarrow>
                     (Some (ErrorString (''Completed check for group '' @ g @ '' returned error: '' @ Error err)),
                      s1, b, tr1 @ [E_GroupCompleted g n])
                 | Inr groupCompleted \<Rightarrow>
                     if \<not> groupCompleted then (None, s1, b, tr1 @ [E_GroupCompleted g n])
                     else
                       (case trigger_chord worker b s1 of
                          (r, s', b', tr) \<Rightarrow>
                            (r, s', b',
                             tr1 @ [E_GroupCompleted g n] @ tr @
                             (if hasAMQPBackend worker then [E_PurgeGroupMeta g] else []))))))"

definition error_callbacks :: "signature \<Rightarrow> error \<Rightarrow> signature list" where
  "error_callbacks signature taskErr =
     map (\<lambda>errorTask. set_Args (VString (Error taskErr) # Args errorTask) errorTask)
         (OnError signature)"

definition taskFailed ::
  "'b env \<Rightarrow> signature \<Rightarrow> error \<Rightarrow> stackframes \<Rightarrow> error option \<times> signature \<times> event list" where
  "taskFailed worker signature taskErr trace =
     (case SetStateFailure worker signature (Error taskErr) of
        Some err \<Rightarrow>
          (Some (state_error ''failure'' (Id' signature) err), signature,
           [E_SetStateFailure signature (Error taskErr)])
      | None \<Rightarrow>
          (let cbs = error_callbacks signature taskErr
           in (None, set_OnError cbs signature,
               E_SetStateFailure signature (Error taskErr) #
               (if errorHandler worker then [E_errorHandler taskErr signature trace] else []) @
               map (E_SendTask ErrorCallback) cbs)))"

text \<open>
  The branch \<^verbatim>\<open>if err != nil\<close> of \<^verbatim>\<open>Process\<close> after the call of the task: a
  \<^verbatim>\<open>tasks.ErrRetryTaskLater\<close> is retried after its own delay, any other error is retried
  while \<open>RetryCount\<close> is positive, and fails the task otherwise.
\<close>

definition handle_error ::
  "'b env \<Rightarrow> signature \<Rightarrow> error \<Rightarrow> stackframes \<Rightarrow> error option \<times> signature \<times> event list" where
  "handle_error worker signature err trace =
     (case err of
        ErrRetryTaskLater m retryIn \<Rightarrow> retryTaskIn worker signature retryIn
      | _ \<Rightarrow>
          if RetryCount signature > 0 then taskRetry worker signature
          else taskFailed worker signature err trace)"

text \<open>
  \<^verbatim>\<open>Process\<close>: what it returns (or the panic that unwinds it), the signature and the
  store of the backend afterwards, and the calls it made. The tracing package is not
  among the sources: the span started from the headers is named by the id of the
  signature.
\<close>

definition Process ::
  "'b env \<Rightarrow> 'b \<Rightarrow> signature \<Rightarrow> error option go \<times> signature \<times> 'b \<times> event list" where
  "Process worker b signature =
     (if \<not> IsTaskRegistered worker (Task signature) then (Return None, signature, b, [])
      else
        (case GetRegisteredTask worker (Task signature) of
           Inl err \<Rightarrow> (Return None, signature, b, [])
         | Inr taskFunc \<Rightarrow>
             (case SetStateReceived worker signature of
                Some err \<Rightarrow>
                  (Return (Some (state_error ''received'' (Id' signature) err)), signature, b,
                   [E_SetStateReceived signature])
              | None \<Rightarrow>
                  (case New (int_impl worker) taskFunc (Args signature) of
                     Panic p \<Rightarrow> (Panic p, signature, b, [E_SetStateReceived signature])
                   | Return (Inl err) \<Rightarrow>
                       (case taskFailed worker signature err DebugStack of
                          (r, s', tr) \<Rightarrow> (Return (Some err), s', b, E_SetStateReceived signature # tr))
                   | Return (Inr task0) \<Rightarrow>
                       (let task = task0\<lparr>Context := ContextWithSpan (Context task0) (Id' signature)\<rparr>
                        in case SetStateStarted worker signature of
                             Some err \<Rightarrow>
                               (Return (Some (state_error ''started'' (Id' signature) err)), signature, b,
                                [E_SetStateReceived signature, E_SetStateStarted signature])
                           | None \<Rightarrow>
                               (let tr0 = [E_SetStateReceived signature, E_SetStateStarted signature,
                                           E_Call (call_args task)]
                                in case Call task of
                                     (results, Some err, trace) \<Rightarrow>
                                       (case handle_error worker signature err trace of
                                          (r, s', tr) \<Rightarrow> (Return r, s', b, tr0 @ tr))
                                   | (results, None, trace) \<Rightarrow>
                                       (case taskSucceeded worker b signature results of
                                          (r, s', b', tr) \<Rightarrow> (Return r, s', b', tr0 @ tr))))))))"

subsection \<open>The atomic chord trigger and concurrent workers\<close>

text \<open>
  Modelled from the spec: the backends (\<^verbatim>\<open>v1/backends\<close>) are missing. The spec asks
  \<^verbatim>\<open>TriggerChord\<close> to be an atomic test-and-set: the store is the set of the groups whose
  chord has been triggered, and the call answers true exactly when the group was not in
  it, and puts it in.
\<close>

definition TriggerChord_atomic :: "string \<Rightarrow> string set \<Rightarrow> (error + bool) \<times> string set" where
  "TriggerChord_atomic g triggered = (Inr (g \<notin> triggered), insert g triggered)"

text \<open>
  Workers that process signatures concurrently share the store of the backend and
  nothing else: each has its own answers from the other operations, whatever the
  interleaving made them. Their calls of the atomic \<^verbatim>\<open>TriggerChord\<close> happen in some
  order, and \<open>run_workers\<close> runs the workers in that order; it returns the calls of all
  of them.
\<close>

fun run_workers :: "'b \<Rightarrow> ('b env \<times> signature) list \<Rightarrow> event list" where
  "run_workers b [] = []"
| "run_workers b ((worker, signature) # ws) =
     (case Process worker b signature of (r, s', b', tr) \<Rightarrow> tr @ run_workers b' ws)"

fun is_chord_send :: "event \<Rightarrow> bool" where
  "is_chord_send (E_SendTask ChordSite c) = True"
| "is_chord_send e = False"

fun is_success_send :: "event \<Rightarrow> bool" where
  "is_success_send (E_SendTask SuccessCallback c) = True"
| "is_success_send e = False"

fun sent :: "event \<Rightarrow> signature list" where
  "sent (E_SendTask site c) = [c]"
| "sent e = []"

subsection \<open>Example handlers, signatures and workers\<close>

definition error_type_decl :: gotype where
  "error_type_decl = \<lparr>type_name = ''error'', type_kind = KInterface, implements_error = True,
     implements_retriable = False, is_context = False\<rparr>"

definition empty_interface_decl :: gotype where
  "empty_interface_decl = \<lparr>type_name = ''interface {}'', type_kind = KInterface,
     implements_error = False, implements_retriable = False, is_context = False\<rparr>"

definition context_decl :: gotype where
  "context_decl = \<lparr>type_name = ''context.Context'', type_kind = KInterface,
     implements_error = False, implements_retriable = False, is_context = True\<rparr>"

definition int_decl :: gotype where
  "int_decl = \<lparr>type_name = ''int'', type_kind = KInt, implements_error = False,
     implements_retriable = False, is_context = False\<rparr>"

definition int64_decl :: gotype where
  "int64_decl = \<lparr>type_name = ''int64'', type_kind = KInt64, implements_error = False,
     implements_retriable = False, is_context = False\<rparr>"

definition string_decl :: gotype where
  "string_decl = \<lparr>type_name = ''string'', type_kind = KString, implements_error = False,
     implements_retriable = False, is_context = False\<rparr>"

definition nil_error :: rvalue where
  "nil_error = \<lparr>rtype = error_type_decl, rval = VNil\<rparr>"

text \<open>\<^verbatim>\<open>func() error { return tasks.NewErrRetryTaskLater("some error", 4*time.Hour) }\<close>\<close>

definition retriable :: handler where
  "retriable = func [] (\<lambda>args. Returns
     [\<lparr>rtype = error_type_decl, rval = VError (ErrRetryTaskLater ''some error'' (4 * 3600 * Second))\<rparr>])"

text \<open>\<^verbatim>\<open>func() error { return errors.New("some error") }\<close>\<close>

definition standard :: handler where
  "standard = func [] (\<lambda>args. Returns
     [\<lparr>rtype = error_type_decl, rval = VError (ErrorString ''some error'')\<rparr>])"


text \<open>\<^verbatim>\<open>func() interface{} { return errors.New("some error") }\<close>\<close>

definition untyped_error :: handler where
  "untyped_error = func [] (\<lambda>args. Returns
     [\<lparr>rtype = empty_interface_decl, rval = VError (ErrorString ''some error'')\<rparr>])"

text \<open>\<^verbatim>\<open>func() (interface{}, error) { return 3.5, nil }\<close>\<close>

definition interface_valued :: handler where
  "interface_valued = func [] (\<lambda>args. Returns
     [\<lparr>rtype = empty_interface_decl, rval = VFloat64 (Finite (7 / 2))\<rparr>, nil_error])"

text \<open>\<^verbatim>\<open>func(c context.Context) (interface{}, error) { return 3.5, nil }\<close>\<close>

definition with_context :: handler where
  "with_context = func [context_decl] (\<lambda>args. Returns
     [\<lparr>rtype = empty_interface_decl, rval = VFloat64 (Finite (7 / 2))\<rparr>, nil_error])"

text \<open>\<^verbatim>\<open>func(x int) error { return nil }\<close> and \<^verbatim>\<open>func(x int64) error { return nil }\<close>\<close>

definition takes_int :: handler where
  "takes_int = func [int_decl] (\<lambda>args. Returns [nil_error])"

definition takes_int64 :: handler where
  "takes_int64 = func [int64_decl] (\<lambda>args. Returns [nil_error])"

definition new_signature :: "string \<Rightarrow> string \<Rightarrow> val list \<Rightarrow> signature" where
  "new_signature task_id name args =
     Signature name task_id [] None [] 0 args [] False 0 0 [] [] None"

text \<open>
  A worker whose server knows the tasks of \<open>registry\<close>, and whose backend and broker
  accept every call; the chord trigger is the atomic one.
\<close>

definition example_worker :: "(string \<times> handler) list \<Rightarrow> (string set) env" where
  "example_worker registry =
     \<lparr>IsTaskRegistered = (\<lambda>name. name \<in> fst ` set registry),
      GetRegisteredTask = (\<lambda>name. case map_of registry name of
                                      None \<Rightarrow> Inl (ErrorString (''Task not registered error: '' @ name))
                                    | Some taskFunc \<Rightarrow> Inr taskFunc),
      SetStateReceived = (\<lambda>signature. None),
      SetStateStarted = (\<lambda>signature. None),
      SetStateRetry = (\<lambda>signature. None),
      SetStateSuccess = (\<lambda>signature taskResults. None),
      SetStateFailure = (\<lambda>signature err. None),
      GroupCompleted = (\<lambda>g n. Inr True),
      TriggerChord = TriggerChord_atomic,
      GroupTaskStates = (\<lambda>g n. Inr [\<lparr>State = SUCCESS, Results = [\<lparr>Type = ''int'', Value = VInt 1\<rparr>]\<rparr>]),
      hasAMQPBackend = False,
      SendTask = (\<lambda>signature. None),
      errorHandler = False,
      Now = 1000,
      int_impl = (\<lambda>f. - (2 ^ 63))\<rparr>"

subsection \<open>Reaching the call of the task\<close>

text \<open>
  \<open>started worker signature taskFunc task0\<close>: \<^verbatim>\<open>Process\<close> gets as far as the call of
  the task, that is, the task is registered as \<open>taskFunc\<close>, the backend accepts the
  states RECEIVED and STARTED, and \<^verbatim>\<open>tasks.New\<close> builds \<open>task0\<close>. The task that is
  called is \<open>with_span signature task0\<close>.
\<close>

definition with_span :: "signature \<Rightarrow> Task \<Rightarrow> Task" where
  "with_span signature task0 = task0\<lparr>Context := ContextWithSpan (Context task0) (Id' signature)\<rparr>"

definition started :: "'b env \<Rightarrow> signature \<Rightarrow> handler \<Rightarrow> Task \<Rightarrow> bool" where
  "started worker signature taskFunc task0 \<longleftrightarrow>
     IsTaskRegistered worker (Task signature) \<and>
     GetRegisteredTask worker (Task signature) = Inr taskFunc \<and>
     SetStateReceived worker signature = None \<and>
     New (int_impl worker) taskFunc (Args signature) = Return (Inr task0) \<and>
     SetStateStarted worker signature = None"

definition calls_before :: "signature \<Rightarrow> Task \<Rightarrow> event list" where
  "calls_before signature task0 =
     [E_SetStateReceived signature, E_SetStateStarted signature,
      E_Call (call_args (with_span signature task0))]"

definition retry_later_signature :: signature where
  "retry_later_signature = new_signature ''task_1'' ''retriable'' []"


text \<open>What \<^verbatim>\<open>tasks.New\<close> builds from a function without parameters.\<close>

definition bare_task :: "handler \<Rightarrow> Task" where
  "bare_task taskFunc = \<lparr>TaskFunc = taskFunc, UseContext = False, Context = Background, TaskArgs = []\<rparr>"

text \<open>
  A group of two tasks with a chord callback; the members are immutable, the callback is
  not. \<open>failing_backend\<close> cannot read the states of a group.
\<close>

definition chord_callback :: signature where
  "chord_callback = new_signature ''task_9'' ''collect'' []"

definition group_member :: "string \<Rightarrow> signature" where
  "group_member task_id =
     Signature ''interface_valued'' task_id [] None ''group_1'' 2 [] [] True 0 0 [] []
       (Some chord_callback)"

definition failing_backend :: "(string set) env" where
  "failing_backend = (example_worker [(''interface_valued'', interface_valued)])
     \<lparr>GroupTaskStates := (\<lambda>g n. Inl (ErrorString ''backend unreachable''))\<rparr>"

text \<open>An immutable task with a success callback and an immutable chord callback.\<close>

definition success_callback :: signature where
  "success_callback = new_signature ''task_8'' ''notify'' [VInt 7]"

definition immutable_chord_callback :: signature where
  "immutable_chord_callback =
     Signature ''collect'' ''task_7'' [] None [] 0 [VString ''sum''] [] True 0 0 [] [] None"

definition immutable_member :: signature where
  "immutable_member =
     Signature ''interface_valued'' ''task_5'' [] None ''group_2'' 1 [] [] True 0 0
       [success_callback] [] (Some immutable_chord_callback)"

text \<open>The answers of \<open>n\<close> calls of the atomic \<^verbatim>\<open>TriggerChord\<close> for a group, one after another.\<close>

fun trigger_answers :: "string \<Rightarrow> string set \<Rightarrow> nat \<Rightarrow> bool list" where
  "trigger_answers g triggered 0 = []"
| "trigger_answers g triggered (Suc n) =
     (case TriggerChord_atomic g triggered of
        (answer, triggered') \<Rightarrow> (answer = Inr True) # trigger_answers g triggered' n)"


text \<open>
  The task result that \<^verbatim>\<open>Call\<close> builds from a result of the function: the name of
  the dynamic type of the value, and the value.
\<close>

definition type_tag :: "val \<Rightarrow> string" where
  "type_tag v = (case TypeOf v of None \<Rightarrow> [] | Some (n, k) \<Rightarrow> n)"

definition wrap_result :: "rvalue \<Rightarrow> TaskResult" where
  "wrap_result r = \<lparr>Type = type_tag (rval r), Value = rval r\<rparr>"

text \<open>
  \<^verbatim>\<open>func() tasks.Retriable { return tasks.NewErrRetryTaskLater("later", time.Second) }\<close>
  and \<^verbatim>\<open>func() {}\<close>
\<close>

definition retriable_decl :: gotype where
  "retriable_decl = \<lparr>type_name = ''tasks.Retriable'', type_kind = KInterface,
     implements_error = False, implements_retriable = True, is_context = False\<rparr>"

definition typed_retriable :: handler where
  "typed_retriable = func [] (\<lambda>args. Returns
     [\<lparr>rtype = retriable_decl, rval = VError (ErrRetryTaskLater ''later'' Second)\<rparr>])"

definition returns_nothing :: handler where
  "returns_nothing = func [] (\<lambda>args. Returns [])"

text \<open>
  \<^verbatim>\<open>func() string { return "done" }\<close> and
  \<^verbatim>\<open>func() (interface{}, error) { return nil, nil }\<close>
\<close>

definition returns_string :: handler where
  "returns_string = func [] (\<lambda>args. Returns
     [\<lparr>rtype = string_decl, rval = VString ''done''\<rparr>])"

definition returns_nil_value :: handler where
  "returns_nil_value = func [] (\<lambda>args. Returns
     [\<lparr>rtype = empty_interface_decl, rval = VNil\<rparr>, nil_error])"





text \<open>The result values of the tasks of a group, in the order of its states.\<close>

definition group_results :: "TaskState list \<Rightarrow> val list" where
  "group_results taskStates = concat (map (\<lambda>taskState. map Value (Results taskState)) taskStates)"

text \<open>A task that is not immutable, with a success callback and an immutable chord callback.\<close>

definition mutable_member :: signature where
  "mutable_member =
     Signature ''interface_valued'' ''task_10'' [] None ''group_3'' 1 [] [] False 0 0
       [success_callback] [] (Some immutable_chord_callback)"

section \<open>Properties\<close>

subsection \<open>Functions as reflection sees them\<close>

lemma func_simps [simp]:
  "In (func ins f) = ins"
  "Invoke (func [] f) [] = f []"
  by (simp_all add: func_def reflect_Call_def)

subsection \<open>Signatures\<close>

lemma set_fields [simp]:
  "Args (set_Args a s) = a" "ETA (set_Args a s) = ETA s"
  "RetryCount (set_Args a s) = RetryCount s" "RetryTimeout (set_Args a s) = RetryTimeout s"
  "Immutable (set_Args a s) = Immutable s"
  "ETA (set_ETA e s) = e" "RetryCount (set_ETA e s) = RetryCount s"
  "RetryTimeout (set_ETA e s) = RetryTimeout s" "Args (set_ETA e s) = Args s"
  "OnSuccess (set_ETA e s) = OnSuccess s" "ChordCallback (set_ETA e s) = ChordCallback s"
  "RetryCount (set_RetryCount c s) = c" "RetryTimeout (set_RetryCount c s) = RetryTimeout s"
  "ETA (set_RetryCount c s) = ETA s" "OnSuccess (set_RetryCount c s) = OnSuccess s"
  "ChordCallback (set_RetryCount c s) = ChordCallback s"
  "RetryTimeout (set_RetryTimeout t s) = t" "RetryCount (set_RetryTimeout t s) = RetryCount s"
  "ETA (set_RetryTimeout t s) = ETA s" "OnSuccess (set_RetryTimeout t s) = OnSuccess s"
  "ChordCallback (set_RetryTimeout t s) = ChordCallback s"
  "OnSuccess (set_OnSuccess os s) = os" "GroupUUID (set_OnSuccess os s) = GroupUUID s"
  "GroupTaskCount (set_OnSuccess os s) = GroupTaskCount s"
  "ChordCallback (set_OnSuccess os s) = ChordCallback s"
  "OnSuccess (set_OnError oe s) = OnSuccess s" "ChordCallback (set_OnError oe s) = ChordCallback s"
  "OnSuccess (set_ChordCallback cc s) = OnSuccess s" "ChordCallback (set_ChordCallback cc s) = cc"
  by (cases s; simp)+

subsection \<open>Unregistered tasks\<close>

text \<open>
  C9. A signature whose task name is not registered with the server of the worker is
  skipped: \<^verbatim>\<open>Process\<close> returns nil, and it makes no call at all, neither to the
  backend, nor to the broker, nor to a task function; signature and store are as before.
\<close>

theorem Process_unregistered:
  "\<not> IsTaskRegistered worker (Task signature) \<Longrightarrow>
   Process worker b signature = (Return None, signature, b, [])"
  by (simp add: Process_def)

theorem Process_unregistered_witness:
  "\<not> IsTaskRegistered (example_worker [(''add'', takes_int)]) (Task (new_signature ''task_1'' ''mul'' [])) \<and>
   Process (example_worker [(''add'', takes_int)]) {} (new_signature ''task_1'' ''mul'' []) =
     (Return None, new_signature ''task_1'' ''mul'' [], {}, [])"
proof -
  have h: "\<not> IsTaskRegistered (example_worker [(''add'', takes_int)]) (Task (new_signature ''task_1'' ''mul'' []))"
    by (simp add: example_worker_def new_signature_def)
  show ?thesis using h Process_unregistered [OF h, of "{}"] by simp
qed

subsection \<open>\<^verbatim>\<open>Process\<close> up to the call of the task\<close>

lemma Process_started:
  assumes "started worker signature taskFunc task0"
  shows "Process worker b signature =
     (case Call (with_span signature task0) of
        (results, Some err, trace) \<Rightarrow>
          (case handle_error worker signature err trace of
             (r, s', tr) \<Rightarrow> (Return r, s', b, calls_before signature task0 @ tr))
      | (results, None, trace) \<Rightarrow>
          (case taskSucceeded worker b signature results of
             (r, s', b', tr) \<Rightarrow> (Return r, s', b', calls_before signature task0 @ tr)))"
  using assms
  by (simp add: started_def Process_def with_span_def calls_before_def Let_def
      split: prod.split option.split)

lemma started_example:
  "map_of registry name = Some taskFunc \<Longrightarrow> In taskFunc = [] \<Longrightarrow>
   started (example_worker registry) (Signature name i rk eta g n [] h im rc rt os oe cc)
     taskFunc (bare_task taskFunc)"
  by (auto simp: started_def example_worker_def New_def ReflectArgs_def bare_task_def Let_def
      dest: map_of_SomeD intro: image_eqI [where x = "(name, taskFunc)"])

subsection \<open>The Fibonacci successor\<close>









subsection \<open>Retry after an explicit delay\<close>

lemma handle_error_retry_later:
  "SetStateRetry worker signature = None \<Longrightarrow>
   handle_error worker signature (ErrRetryTaskLater m d) trace =
     (SendTask worker (set_ETA (Some (Now worker + d)) signature),
      set_ETA (Some (Now worker + d)) signature,
      [E_SetStateRetry signature, E_SendTask RetrySite (set_ETA (Some (Now worker + d)) signature)])"
  by (simp add: handle_error_def retryTaskIn_def Add_def Let_def)

text \<open>
  C4. When the call of the task yields a \<^verbatim>\<open>tasks.ErrRetryTaskLater\<close> carrying the
  duration \<open>d\<close>, whatever \<open>RetryCount\<close> is (zero included), the worker calls
  \<^verbatim>\<open>SetStateRetry\<close> and, the backend having taken the state RETRY, sets the ETA of the
  signature to now + \<open>d\<close> and publishes it again; \<open>RetryCount\<close> and \<open>RetryTimeout\<close> (and
  every field but the ETA) are as before. \<^verbatim>\<open>Process\<close> returns what the publication
  returned.
\<close>

theorem Process_retry_later:
  assumes "started worker signature taskFunc task0"
    and "Call (with_span signature task0) = (results, Some (ErrRetryTaskLater m d), trace)"
    and "SetStateRetry worker signature = None"
  shows "\<exists>s'. Process worker b signature =
             (Return (SendTask worker s'), s', b,
              calls_before signature task0 @ [E_SetStateRetry signature, E_SendTask RetrySite s']) \<and>
           s' = set_ETA (Some (Now worker + d)) signature \<and>
           ETA s' = Some (Now worker + d) \<and>
           RetryCount s' = RetryCount signature \<and>
           RetryTimeout s' = RetryTimeout signature"
  using assms
  by (simp add: Process_started handle_error_retry_later)

theorem Process_retry_later_witness:
  "started (example_worker [(''retriable'', retriable)]) retry_later_signature retriable (bare_task retriable) \<and>
   Call (with_span retry_later_signature (bare_task retriable)) =
     ([], Some (ErrRetryTaskLater ''some error'' 14400000000000), NoStackFrames) \<and>
   SetStateRetry (example_worker [(''retriable'', retriable)]) retry_later_signature = None \<and>
   RetryCount retry_later_signature = 0 \<and>
   Process (example_worker [(''retriable'', retriable)]) {} retry_later_signature =
     (Return None, set_ETA (Some 14400000001000) retry_later_signature, {},
      [E_SetStateReceived retry_later_signature, E_SetStateStarted retry_later_signature, E_Call [],
       E_SetStateRetry retry_later_signature,
       E_SendTask RetrySite (set_ETA (Some 14400000001000) retry_later_signature)])"
proof -
  have h1: "started (example_worker [(''retriable'', retriable)]) retry_later_signature retriable (bare_task retriable)"
    unfolding retry_later_signature_def new_signature_def
    by (rule started_example) (simp_all add: retriable_def)
  have h2: "Call (with_span retry_later_signature (bare_task retriable)) =
     ([], Some (ErrRetryTaskLater ''some error'' 14400000000000), NoStackFrames)"
    by (simp add: Call_def call_body_def call_args_def with_span_def bare_task_def retriable_def
        IsNil_def nillable_def error_type_decl_def Second_def)
  have h3: "SetStateRetry (example_worker [(''retriable'', retriable)]) retry_later_signature = None"
    by (simp add: example_worker_def)
  have c: "call_args (with_span retry_later_signature (bare_task retriable)) = []"
    by (simp add: call_args_def with_span_def bare_task_def)
  have n: "Now (example_worker [(''retriable'', retriable)]) = 1000"
      "SendTask (example_worker [(''retriable'', retriable)]) = (\<lambda>s. None)"
    by (simp_all add: example_worker_def)
  have r: "RetryCount retry_later_signature = 0"
    by (simp add: retry_later_signature_def new_signature_def)
  show ?thesis
    using h1 h2 h3 r Process_retry_later [OF h1 h2 h3, of "{}"]
    by (simp add: calls_before_def c n)
qed

subsection \<open>Retry with the default backoff\<close>










subsection \<open>The chord when the states of the group cannot be read\<close>

lemma taskSucceeded_group_states_error:
  assumes "SetStateSuccess worker signature results = None"
    and "GroupUUID signature \<noteq> []"
    and "GroupCompleted worker (GroupUUID signature) (GroupTaskCount signature) = Inr True"
    and "ChordCallback signature = Some chord"
    and "TriggerChord worker (GroupUUID signature) b = (Inr True, b')"
    and "GroupTaskStates worker (GroupUUID signature) (GroupTaskCount signature) = Inl err"
  shows "taskSucceeded worker b signature results =
     (None, set_OnSuccess (success_callbacks signature results) signature, b',
      E_SetStateSuccess signature results #
      map (E_SendTask SuccessCallback) (success_callbacks signature results) @
      [E_GroupCompleted (GroupUUID signature) (GroupTaskCount signature),
       E_TriggerChord (GroupUUID signature),
       E_GroupTaskStates (GroupUUID signature) (GroupTaskCount signature)] @
      (if hasAMQPBackend worker then [E_PurgeGroupMeta (GroupUUID signature)] else []))"
  using assms
  by (simp add: taskSucceeded_def trigger_chord_def send_chord_def Let_def)

text \<open>
  C10. In the chord path, once \<^verbatim>\<open>TriggerChord\<close> has answered true (and the store of the
  backend has changed accordingly), an error from \<^verbatim>\<open>GroupTaskStates\<close> makes
  \<^verbatim>\<open>Process\<close> return nil: the calls it made end with \<^verbatim>\<open>GroupTaskStates\<close> (and the
  deferred \<^verbatim>\<open>PurgeGroupMeta\<close> on an AMQP backend), so the chord callback is not
  published, and no state of failure or retry is written.
\<close>

theorem Process_group_states_error:
  assumes "started worker signature taskFunc task0"
    and "Call (with_span signature task0) = (results, None, trace)"
    and "SetStateSuccess worker signature results = None"
    and "GroupUUID signature \<noteq> []"
    and "GroupCompleted worker (GroupUUID signature) (GroupTaskCount signature) = Inr True"
    and "ChordCallback signature = Some chord"
    and "TriggerChord worker (GroupUUID signature) b = (Inr True, b')"
    and "GroupTaskStates worker (GroupUUID signature) (GroupTaskCount signature) = Inl err"
  shows "\<exists>tr. Process worker b signature =
           (Return None, set_OnSuccess (success_callbacks signature results) signature, b', tr) \<and>
         tr = calls_before signature task0 @
              E_SetStateSuccess signature results #
              map (E_SendTask SuccessCallback) (success_callbacks signature results) @
              [E_GroupCompleted (GroupUUID signature) (GroupTaskCount signature),
               E_TriggerChord (GroupUUID signature),
               E_GroupTaskStates (GroupUUID signature) (GroupTaskCount signature)] @
              (if hasAMQPBackend worker then [E_PurgeGroupMeta (GroupUUID signature)] else []) \<and>
         filter is_chord_send tr = [] \<and>
         (\<forall>s m. E_SetStateFailure s m \<notin> set tr) \<and> (\<forall>s. E_SetStateRetry s \<notin> set tr)"
proof -
  have "filter is_chord_send (map (E_SendTask SuccessCallback) cs) = []" for cs
    by (induction cs) auto
  then show ?thesis
    using assms(2)
    by (auto simp: Process_started [OF assms(1)]
        taskSucceeded_group_states_error [OF assms(3-8)] calls_before_def)
qed

lemma Call_interface_valued:
  "Call (with_span s (bare_task interface_valued)) =
     ([\<lparr>Type = ''float64'', Value = VFloat64 (Finite (7 / 2))\<rparr>], None, NoStackFrames)"
  by (simp add: Call_def call_body_def call_args_def with_span_def bare_task_def
      interface_valued_def nil_error_def IsNil_def nillable_def error_type_decl_def
      empty_interface_decl_def)

theorem Process_group_states_error_witness:
  "started failing_backend (group_member ''task_3'') interface_valued (bare_task interface_valued) \<and>
   Call (with_span (group_member ''task_3'') (bare_task interface_valued)) =
     ([\<lparr>Type = ''float64'', Value = VFloat64 (Finite (7 / 2))\<rparr>], None, NoStackFrames) \<and>
   TriggerChord failing_backend ''group_1'' {} = (Inr True, {''group_1''}) \<and>
   GroupTaskStates failing_backend ''group_1'' 2 = Inl (ErrorString ''backend unreachable'') \<and>
   Process failing_backend {} (group_member ''task_3'') =
     (Return None, group_member ''task_3'', {''group_1''},
      [E_SetStateReceived (group_member ''task_3''), E_SetStateStarted (group_member ''task_3''),
       E_Call [],
       E_SetStateSuccess (group_member ''task_3'')
         [\<lparr>Type = ''float64'', Value = VFloat64 (Finite (7 / 2))\<rparr>],
       E_GroupCompleted ''group_1'' 2, E_TriggerChord ''group_1'', E_GroupTaskStates ''group_1'' 2])"
proof -
  let ?s = "group_member ''task_3''"
  let ?rs = "[\<lparr>Type = ''float64'', Value = VFloat64 (Finite (7 / 2))\<rparr>]"
  have w: "failing_backend = (example_worker [(''interface_valued'', interface_valued)])
     \<lparr>GroupTaskStates := (\<lambda>g n. Inl (ErrorString ''backend unreachable''))\<rparr>"
    by (simp add: failing_backend_def)
  have "started (example_worker [(''interface_valued'', interface_valued)]) ?s interface_valued
          (bare_task interface_valued)"
    unfolding group_member_def
    by (rule started_example) (simp_all add: interface_valued_def)
  then have h1: "started failing_backend ?s interface_valued (bare_task interface_valued)"
    by (simp add: started_def w)
  have h2: "Call (with_span ?s (bare_task interface_valued)) = (?rs, None, NoStackFrames)"
    by (rule Call_interface_valued)
  have f: "GroupUUID ?s = ''group_1''" "GroupTaskCount ?s = 2" "OnSuccess ?s = []"
    "ChordCallback ?s = Some chord_callback"
    by (simp_all add: group_member_def)
  have h3: "SetStateSuccess failing_backend ?s ?rs = None"
    by (simp add: w example_worker_def)
  have h4: "GroupUUID ?s \<noteq> []" by (simp add: f)
  have h5: "GroupCompleted failing_backend (GroupUUID ?s) (GroupTaskCount ?s) = Inr True"
    by (simp add: w example_worker_def)
  have h6: "ChordCallback ?s = Some chord_callback" by (simp add: f)
  have h7: "TriggerChord failing_backend (GroupUUID ?s) {} = (Inr True, {''group_1''})"
    by (simp add: w example_worker_def TriggerChord_atomic_def f)
  have h8: "GroupTaskStates failing_backend (GroupUUID ?s) (GroupTaskCount ?s) =
      Inl (ErrorString ''backend unreachable'')"
    by (simp add: w)
  have c: "call_args (with_span ?s (bare_task interface_valued)) = []"
    by (simp add: call_args_def with_span_def bare_task_def)
  have a: "hasAMQPBackend failing_backend = False"
    by (simp add: w example_worker_def)
  have o: "set_OnSuccess [] ?s = ?s" by (simp add: group_member_def)
  show ?thesis
    using h1 h2 h7 h8 Process_group_states_error [OF h1 h2 h3 h4 h5 h6 h7 h8]
    by (simp add: f calls_before_def c a success_callbacks_def o)
qed

subsection \<open>Immutable signatures and the arguments of callbacks\<close>

lemma handle_error_callbacks:
  assumes "handle_error worker signature err trace = (r, s', tr)"
  shows "OnSuccess s' = OnSuccess signature \<and> ChordCallback s' = ChordCallback signature \<and>
         (\<forall>e \<in> set tr. \<not> is_chord_send e \<and> \<not> is_success_send e)"
  using assms
  by (auto simp: handle_error_def taskRetry_def retryTaskIn_def taskFailed_def Let_def
      split: error.splits option.splits if_splits)

lemma chord_loop_immutable: "chord_loop True taskStates args = (args', ok) \<Longrightarrow> args' = args"
  by (induction taskStates arbitrary: args) (auto split: if_splits)

lemma set_Args_same: "set_Args (Args c) c = c"
  by (cases c) simp

lemma set_ChordCallback_same: "ChordCallback s = Some c \<Longrightarrow> set_ChordCallback (Some c) s = s"
  by (cases s) simp

lemma set_OnSuccess_same: "set_OnSuccess (OnSuccess s) s = s"
  by (cases s) simp

lemma send_chord_no_success:
  "send_chord worker signature chord = (r, s', tr) \<Longrightarrow> e \<in> set tr \<Longrightarrow> \<not> is_success_send e"
  by (auto simp: send_chord_def Let_def split: sum.splits prod.splits bool.splits)

lemma send_chord_OnSuccess:
  "send_chord worker signature chord = (r, s', tr) \<Longrightarrow> OnSuccess s' = OnSuccess signature"
  by (auto simp: send_chord_def Let_def split: sum.splits prod.splits bool.splits)

lemma send_chord_immutable_sent:
  "Immutable chord \<Longrightarrow> send_chord worker signature chord = (r, s', tr) \<Longrightarrow>
   E_SendTask ChordSite c \<in> set tr \<Longrightarrow> c = chord"
  by (auto simp: send_chord_def Let_def set_Args_same split: sum.splits prod.splits bool.splits
      dest!: chord_loop_immutable)

lemma send_chord_immutable_callback:
  "Immutable chord \<Longrightarrow> ChordCallback signature = Some chord \<Longrightarrow>
   send_chord worker signature chord = (r, s', tr) \<Longrightarrow> s' = signature"
  by (auto simp: send_chord_def Let_def set_Args_same set_ChordCallback_same
      split: sum.splits prod.splits bool.splits dest!: chord_loop_immutable)

lemma trigger_chord_no_success:
  "trigger_chord worker b signature = (r, s', b', tr) \<Longrightarrow> e \<in> set tr \<Longrightarrow> \<not> is_success_send e"
  by (auto simp: trigger_chord_def Let_def split: option.splits sum.splits prod.splits if_splits
      dest: send_chord_no_success)

lemma trigger_chord_OnSuccess:
  "trigger_chord worker b signature = (r, s', b', tr) \<Longrightarrow> OnSuccess s' = OnSuccess signature"
  by (auto simp: trigger_chord_def Let_def split: option.splits sum.splits prod.splits if_splits
      dest: send_chord_OnSuccess)

lemma trigger_chord_immutable_sent:
  "ChordCallback signature = Some chord \<Longrightarrow> Immutable chord \<Longrightarrow>
   trigger_chord worker b signature = (r, s', b', tr) \<Longrightarrow>
   E_SendTask ChordSite c \<in> set tr \<Longrightarrow> c = chord"
  by (auto simp: trigger_chord_def Let_def split: option.splits sum.splits prod.splits if_splits
      dest: send_chord_immutable_sent)

lemma trigger_chord_immutable_callback:
  "ChordCallback signature = Some chord \<Longrightarrow> Immutable chord \<Longrightarrow>
   trigger_chord worker b signature = (r, s', b', tr) \<Longrightarrow> s' = signature"
  by (auto simp: trigger_chord_def Let_def split: option.splits sum.splits prod.splits if_splits
      dest: send_chord_immutable_callback)

lemma success_callbacks_immutable:
  "Immutable signature \<Longrightarrow> success_callbacks signature rs = OnSuccess signature"
  by (simp add: success_callbacks_def)

lemma taskSucceeded_immutable:
  assumes "Immutable signature" and "taskSucceeded worker b signature taskResults = (r, s', b', tr)"
  shows "OnSuccess s' = OnSuccess signature"
    and "E_SendTask SuccessCallback c \<in> set tr \<Longrightarrow> c \<in> set (OnSuccess signature)"
    and "ChordCallback signature = Some chord \<Longrightarrow> Immutable chord \<Longrightarrow> ChordCallback s' = Some chord"
    and "ChordCallback signature = Some chord \<Longrightarrow> Immutable chord \<Longrightarrow>
         E_SendTask ChordSite c \<in> set tr \<Longrightarrow> c = chord"
  using assms
  by (auto simp: taskSucceeded_def Let_def success_callbacks_immutable set_OnSuccess_same
      split: option.splits sum.splits prod.splits if_splits
      dest: trigger_chord_no_success trigger_chord_OnSuccess trigger_chord_immutable_sent
        trigger_chord_immutable_callback)

lemma taskFailed_callbacks:
  assumes "taskFailed worker signature err trace = (r, s', tr)"
  shows "OnSuccess s' = OnSuccess signature \<and> ChordCallback s' = ChordCallback signature \<and>
         (\<forall>e \<in> set tr. \<not> is_chord_send e \<and> \<not> is_success_send e)"
  using assms
  by (auto simp: taskFailed_def Let_def split: option.splits if_splits)

lemma Process_cases:
  assumes "Process worker b signature = (r, s', b', tr)"
  obtains
      (skip) "s' = signature" "b' = b"
        "set tr \<subseteq> {E_SetStateReceived signature, E_SetStateStarted signature}"
    | (build) err r0 tr0 where "taskFailed worker signature err DebugStack = (r0, s', tr0)"
        "b' = b" "tr = E_SetStateReceived signature # tr0"
    | (error) task err trace r0 tr0 where "handle_error worker signature err trace = (r0, s', tr0)"
        "b' = b"
        "tr = [E_SetStateReceived signature, E_SetStateStarted signature, E_Call (call_args task)] @ tr0"
    | (success) task results r0 tr0 where
        "taskSucceeded worker b signature results = (r0, s', b', tr0)"
        "tr = [E_SetStateReceived signature, E_SetStateStarted signature, E_Call (call_args task)] @ tr0"
  using assms
  by (auto simp: Process_def Let_def
      split: if_splits sum.splits option.splits go.splits prod.splits)

lemma chord_loop_mutable:
  "chord_loop False taskStates args = (args', True) \<Longrightarrow> args' = args @ group_results taskStates"
proof (induction taskStates arbitrary: args)
  case Nil
  then show ?case by (simp add: group_results_def)
next
  case (Cons a taskStates)
  from Cons.prems have "chord_loop False taskStates (args @ map Value (Results a)) = (args', True)"
    by (auto split: if_splits)
  from Cons.IH [OF this] show ?case by (simp add: group_results_def)
qed

lemma send_chord_mutable_sent:
  "\<not> Immutable chord \<Longrightarrow> send_chord worker signature chord = (r, s', tr) \<Longrightarrow>
   E_SendTask ChordSite c \<in> set tr \<Longrightarrow>
   \<exists>taskStates. GroupTaskStates worker (GroupUUID signature) (GroupTaskCount signature) = Inr taskStates \<and>
     c = set_Args (Args chord @ group_results taskStates) chord"
  by (auto simp: send_chord_def Let_def split: sum.splits prod.splits bool.splits
      dest!: chord_loop_mutable)

lemma trigger_chord_mutable_sent:
  "ChordCallback signature = Some chord \<Longrightarrow> \<not> Immutable chord \<Longrightarrow>
   trigger_chord worker b signature = (r, s', b', tr) \<Longrightarrow>
   E_SendTask ChordSite c \<in> set tr \<Longrightarrow>
   \<exists>taskStates. GroupTaskStates worker (GroupUUID signature) (GroupTaskCount signature) = Inr taskStates \<and>
     c = set_Args (Args chord @ group_results taskStates) chord"
  by (auto simp: trigger_chord_def Let_def split: option.splits sum.splits prod.splits if_splits
      dest: send_chord_mutable_sent)

lemma taskSucceeded_parts:
  assumes "taskSucceeded worker b signature taskResults = (r, s', b', tr)"
  shows "(ChordCallback s' = ChordCallback signature \<and>
          (\<forall>c. E_SendTask ChordSite c \<notin> set tr)) \<or>
         (\<exists>tr0. trigger_chord worker b
                  (set_OnSuccess (success_callbacks signature taskResults) signature) =
                  (r, s', b', tr0) \<and>
                (\<forall>c. E_SendTask ChordSite c \<in> set tr \<longrightarrow> E_SendTask ChordSite c \<in> set tr0))"
  using assms
  by (auto simp: taskSucceeded_def Let_def
      split: option.splits sum.splits prod.splits if_splits)

lemma taskSucceeded_chord_immutable:
  assumes "ChordCallback signature = Some chord" and "Immutable chord"
    and "taskSucceeded worker b signature taskResults = (r, s', b', tr)"
  shows "ChordCallback s' = Some chord \<and> (\<forall>c. E_SendTask ChordSite c \<in> set tr \<longrightarrow> c = chord)"
proof -
  consider (none) "ChordCallback s' = ChordCallback signature"
      "\<forall>c. E_SendTask ChordSite c \<notin> set tr"
    | (chord) tr0 where "trigger_chord worker b
       (set_OnSuccess (success_callbacks signature taskResults) signature) = (r, s', b', tr0)"
      "\<forall>c. E_SendTask ChordSite c \<in> set tr \<longrightarrow> E_SendTask ChordSite c \<in> set tr0"
    using taskSucceeded_parts [OF assms(3)] by blast
  then show ?thesis
  proof cases
  case none
  with assms(1) show ?thesis by auto
next
  case (chord tr0)
  let ?s1 = "set_OnSuccess (success_callbacks signature taskResults) signature"
  have c: "ChordCallback ?s1 = Some chord" using assms(1) by simp
  from trigger_chord_immutable_callback [OF c assms(2) chord(1)] have "s' = ?s1" .
  moreover have "c = chord" if "E_SendTask ChordSite c \<in> set tr" for c
    using trigger_chord_immutable_sent [OF c assms(2) chord(1)] chord(2) that by blast
  ultimately show ?thesis using c by simp
qed
qed

lemma taskSucceeded_chord_mutable:
  assumes "ChordCallback signature = Some chord" and "\<not> Immutable chord"
    and "taskSucceeded worker b signature taskResults = (r, s', b', tr)"
    and "E_SendTask ChordSite c \<in> set tr"
  shows "\<exists>taskStates. GroupTaskStates worker (GroupUUID signature) (GroupTaskCount signature) = Inr taskStates \<and>
     c = set_Args (Args chord @ group_results taskStates) chord"
proof -
  consider (none) "ChordCallback s' = ChordCallback signature"
      "\<forall>c. E_SendTask ChordSite c \<notin> set tr"
    | (chord) tr0 where "trigger_chord worker b
       (set_OnSuccess (success_callbacks signature taskResults) signature) = (r, s', b', tr0)"
      "\<forall>c. E_SendTask ChordSite c \<in> set tr \<longrightarrow> E_SendTask ChordSite c \<in> set tr0"
    using taskSucceeded_parts [OF assms(3)] by blast
  then show ?thesis
  proof cases
  case none
  with assms(4) show ?thesis by simp
next
  case (chord tr0)
  let ?s1 = "set_OnSuccess (success_callbacks signature taskResults) signature"
  have c: "ChordCallback ?s1 = Some chord" using assms(1) by simp
  from chord(2) assms(4) have "E_SendTask ChordSite c \<in> set tr0" by simp
  from trigger_chord_mutable_sent [OF c assms(2) chord(1) this] show ?thesis by simp
qed
qed

text \<open>
  C6, as amended. When \<open>Immutable\<close> holds of the signature, processing does not extend
  the arguments of its success callbacks: every callback published from \<open>OnSuccess\<close> is
  one of the callbacks as given, and \<open>OnSuccess\<close> is as before. The chord callback
  follows its own flag, whatever the flag of the signature is: when \<open>Immutable\<close> holds of
  the chord callback, it is as before, and as given whenever it is published; when it
  does not, the chord callback, whenever it is published, has the result values of the
  states of the group appended to its arguments, in order.
\<close>

theorem Process_immutable:
  assumes "Process worker b signature = (r, s', b', tr)"
  shows "(Immutable signature \<longrightarrow>
            OnSuccess s' = OnSuccess signature \<and>
            (\<forall>c. E_SendTask SuccessCallback c \<in> set tr \<longrightarrow> c \<in> set (OnSuccess signature))) \<and>
         (\<forall>chord. ChordCallback signature = Some chord \<and> Immutable chord \<longrightarrow>
            ChordCallback s' = Some chord \<and>
            (\<forall>c. E_SendTask ChordSite c \<in> set tr \<longrightarrow> c = chord)) \<and>
         (\<forall>chord c. ChordCallback signature = Some chord \<and> \<not> Immutable chord \<and>
            E_SendTask ChordSite c \<in> set tr \<longrightarrow>
            (\<exists>taskStates.
               GroupTaskStates worker (GroupUUID signature) (GroupTaskCount signature) = Inr taskStates \<and>
               c = set_Args (Args chord @ group_results taskStates) chord))"
  using assms
proof (cases rule: Process_cases)
  case skip
  then show ?thesis by auto
next
  case build
  from taskFailed_callbacks [OF build(1)] build(3) show ?thesis by auto
next
  case error
  from handle_error_callbacks [OF error(1)] error(3) show ?thesis by auto
next
  case (success task results r0 tr0)
  have 1: "OnSuccess s' = OnSuccess signature \<and>
      (\<forall>c. E_SendTask SuccessCallback c \<in> set tr \<longrightarrow> c \<in> set (OnSuccess signature))"
    if "Immutable signature"
    using taskSucceeded_immutable(1,2) [OF that success(1)] success(2) by auto
  have 2: "ChordCallback s' = Some chord \<and> (\<forall>c. E_SendTask ChordSite c \<in> set tr \<longrightarrow> c = chord)"
    if "ChordCallback signature = Some chord \<and> Immutable chord" for chord
    using taskSucceeded_chord_immutable [OF conjunct1 [OF that] conjunct2 [OF that] success(1)]
      success(2) by auto
  have 3: "\<exists>taskStates.
               GroupTaskStates worker (GroupUUID signature) (GroupTaskCount signature) = Inr taskStates \<and>
               c = set_Args (Args chord @ group_results taskStates) chord"
    if "ChordCallback signature = Some chord \<and> \<not> Immutable chord \<and> E_SendTask ChordSite c \<in> set tr"
    for chord c
  proof -
    from that success(2) have "E_SendTask ChordSite c \<in> set tr0" by auto
    from taskSucceeded_chord_mutable [OF _ _ success(1) this] that show ?thesis by blast
  qed
  from 1 2 3 show ?thesis by blast
qed


lemma Process_immutable_member:
  "Process (example_worker [(''interface_valued'', interface_valued)]) {} immutable_member =
     (Return None, immutable_member, {''group_2''},
      [E_SetStateReceived immutable_member, E_SetStateStarted immutable_member, E_Call [],
       E_SetStateSuccess immutable_member [\<lparr>Type = ''float64'', Value = VFloat64 (Finite (7 / 2))\<rparr>],
       E_SendTask SuccessCallback success_callback,
       E_GroupCompleted ''group_2'' 1, E_TriggerChord ''group_2'', E_GroupTaskStates ''group_2'' 1,
       E_SendTask ChordSite immutable_chord_callback])"
proof -
  let ?w = "example_worker [(''interface_valued'', interface_valued)]"
  have h1: "started ?w immutable_member interface_valued (bare_task interface_valued)"
    unfolding immutable_member_def
    by (rule started_example) (simp_all add: interface_valued_def)
  have c: "call_args (with_span immutable_member (bare_task interface_valued)) = []"
    by (simp add: call_args_def with_span_def bare_task_def)
  have t: "taskSucceeded ?w {} immutable_member [\<lparr>Type = ''float64'', Value = VFloat64 (Finite (7 / 2))\<rparr>] =
      (None, immutable_member, {''group_2''},
       [E_SetStateSuccess immutable_member [\<lparr>Type = ''float64'', Value = VFloat64 (Finite (7 / 2))\<rparr>],
       E_SendTask SuccessCallback success_callback,
       E_GroupCompleted ''group_2'' 1, E_TriggerChord ''group_2'', E_GroupTaskStates ''group_2'' 1,
       E_SendTask ChordSite immutable_chord_callback])"
    by (simp add: taskSucceeded_def trigger_chord_def send_chord_def success_callbacks_def
        example_worker_def TriggerChord_atomic_def immutable_member_def
        immutable_chord_callback_def IsSuccess_def Let_def)
  show ?thesis
    by (simp add: Process_started [OF h1] Call_interface_valued t calls_before_def c)
qed

lemma Process_mutable_member:
  "Process (example_worker [(''interface_valued'', interface_valued)]) {} mutable_member =
     (Return None,
      set_OnSuccess [set_Args [VInt 7, VFloat64 (Finite (7 / 2))] success_callback] mutable_member,
      {''group_3''},
      [E_SetStateReceived mutable_member, E_SetStateStarted mutable_member, E_Call [],
       E_SetStateSuccess mutable_member [\<lparr>Type = ''float64'', Value = VFloat64 (Finite (7 / 2))\<rparr>],
       E_SendTask SuccessCallback (set_Args [VInt 7, VFloat64 (Finite (7 / 2))] success_callback),
       E_GroupCompleted ''group_3'' 1, E_TriggerChord ''group_3'', E_GroupTaskStates ''group_3'' 1,
       E_SendTask ChordSite immutable_chord_callback])"
proof -
  let ?w = "example_worker [(''interface_valued'', interface_valued)]"
  have h1: "started ?w mutable_member interface_valued (bare_task interface_valued)"
    unfolding mutable_member_def
    by (rule started_example) (simp_all add: interface_valued_def)
  have c: "call_args (with_span mutable_member (bare_task interface_valued)) = []"
    by (simp add: call_args_def with_span_def bare_task_def)
  have t: "taskSucceeded ?w {} mutable_member [\<lparr>Type = ''float64'', Value = VFloat64 (Finite (7 / 2))\<rparr>] =
      (None,
       set_OnSuccess [set_Args [VInt 7, VFloat64 (Finite (7 / 2))] success_callback] mutable_member,
       {''group_3''},
       [E_SetStateSuccess mutable_member [\<lparr>Type = ''float64'', Value = VFloat64 (Finite (7 / 2))\<rparr>],
       E_SendTask SuccessCallback (set_Args [VInt 7, VFloat64 (Finite (7 / 2))] success_callback),
       E_GroupCompleted ''group_3'' 1, E_TriggerChord ''group_3'', E_GroupTaskStates ''group_3'' 1,
       E_SendTask ChordSite immutable_chord_callback])"
    by (simp add: taskSucceeded_def trigger_chord_def send_chord_def success_callbacks_def
        example_worker_def TriggerChord_atomic_def mutable_member_def success_callback_def
        new_signature_def immutable_chord_callback_def IsSuccess_def Let_def)
  show ?thesis
    by (simp add: Process_started [OF h1] Call_interface_valued t calls_before_def c)
qed

lemma Process_group_member:
  "Process (example_worker [(''interface_valued'', interface_valued)]) {} (group_member i) =
     (Return None, set_ChordCallback (Some (set_Args [VInt 1] chord_callback)) (group_member i),
      {''group_1''},
      [E_SetStateReceived (group_member i), E_SetStateStarted (group_member i), E_Call [],
       E_SetStateSuccess (group_member i) [\<lparr>Type = ''float64'', Value = VFloat64 (Finite (7 / 2))\<rparr>],
       E_GroupCompleted ''group_1'' 2, E_TriggerChord ''group_1'', E_GroupTaskStates ''group_1'' 2,
       E_SendTask ChordSite (set_Args [VInt 1] chord_callback)])"
proof -
  let ?w = "example_worker [(''interface_valued'', interface_valued)]"
  have h1: "started ?w (group_member i) interface_valued (bare_task interface_valued)"
    unfolding group_member_def
    by (rule started_example) (simp_all add: interface_valued_def)
  have c: "call_args (with_span (group_member i) (bare_task interface_valued)) = []"
    by (simp add: call_args_def with_span_def bare_task_def)
  have t: "taskSucceeded ?w {} (group_member i) [\<lparr>Type = ''float64'', Value = VFloat64 (Finite (7 / 2))\<rparr>] =
      (None, set_ChordCallback (Some (set_Args [VInt 1] chord_callback)) (group_member i), {''group_1''},
       [E_SetStateSuccess (group_member i) [\<lparr>Type = ''float64'', Value = VFloat64 (Finite (7 / 2))\<rparr>],
       E_GroupCompleted ''group_1'' 2, E_TriggerChord ''group_1'', E_GroupTaskStates ''group_1'' 2,
       E_SendTask ChordSite (set_Args [VInt 1] chord_callback)])"
    by (simp add: taskSucceeded_def trigger_chord_def send_chord_def success_callbacks_def
        example_worker_def TriggerChord_atomic_def group_member_def
        chord_callback_def new_signature_def IsSuccess_def Let_def)
  show ?thesis
    by (simp add: Process_started [OF h1] Call_interface_valued t calls_before_def c)
qed

theorem Process_immutable_witness:
  "Immutable immutable_member \<and>
   Process (example_worker [(''interface_valued'', interface_valued)]) {} immutable_member =
     (Return None, immutable_member, {''group_2''},
      [E_SetStateReceived immutable_member, E_SetStateStarted immutable_member, E_Call [],
       E_SetStateSuccess immutable_member [\<lparr>Type = ''float64'', Value = VFloat64 (Finite (7 / 2))\<rparr>],
       E_SendTask SuccessCallback success_callback,
       E_GroupCompleted ''group_2'' 1, E_TriggerChord ''group_2'', E_GroupTaskStates ''group_2'' 1,
       E_SendTask ChordSite immutable_chord_callback]) \<and>
   OnSuccess immutable_member = [success_callback] \<and>
   \<not> Immutable mutable_member \<and>
   ChordCallback mutable_member = Some immutable_chord_callback \<and>
   Immutable immutable_chord_callback \<and>
   E_SendTask ChordSite immutable_chord_callback \<in> set (snd (snd (snd
     (Process (example_worker [(''interface_valued'', interface_valued)]) {} mutable_member)))) \<and>
   ChordCallback (fst (snd
     (Process (example_worker [(''interface_valued'', interface_valued)]) {} mutable_member))) =
     Some immutable_chord_callback \<and>
   Immutable (group_member ''task_3'') \<and>
   ChordCallback (group_member ''task_3'') = Some chord_callback \<and>
   \<not> Immutable chord_callback \<and>
   E_SendTask ChordSite (set_Args [VInt 1] chord_callback) \<in> set (snd (snd (snd
     (Process (example_worker [(''interface_valued'', interface_valued)]) {} (group_member ''task_3''))))) \<and>
   (\<exists>taskStates.
      GroupTaskStates (example_worker [(''interface_valued'', interface_valued)])
        (GroupUUID (group_member ''task_3'')) (GroupTaskCount (group_member ''task_3'')) = Inr taskStates \<and>
      set_Args [VInt 1] chord_callback =
        set_Args (Args chord_callback @ group_results taskStates) chord_callback)"
proof -
  let ?w = "example_worker [(''interface_valued'', interface_valued)]"
  have h1: "Immutable immutable_member" by (simp add: immutable_member_def)
  have o1: "OnSuccess immutable_member = [success_callback]" by (simp add: immutable_member_def)
  note run1 = Process_immutable_member
  from Process_immutable [OF run1, THEN conjunct1, rule_format, OF h1]
  have a1: "OnSuccess immutable_member = OnSuccess immutable_member" by simp
  have m1: "\<not> Immutable mutable_member" by (simp add: mutable_member_def)
  have m2: "ChordCallback mutable_member = Some immutable_chord_callback"
    by (simp add: mutable_member_def)
  have m3: "Immutable immutable_chord_callback" by (simp add: immutable_chord_callback_def)
  note run2 = Process_mutable_member
  have s2: "E_SendTask ChordSite immutable_chord_callback \<in> set (snd (snd (snd
     (Process ?w {} mutable_member))))"
    by (simp add: run2)
  have a2: "ChordCallback (fst (snd (Process ?w {} mutable_member))) = Some immutable_chord_callback"
    using Process_immutable [OF run2, THEN conjunct2, THEN conjunct1, rule_format,
        of immutable_chord_callback] m2 m3
    by (simp add: run2)
  have g1: "Immutable (group_member ''task_3'')" by (simp add: group_member_def)
  have g2: "ChordCallback (group_member ''task_3'') = Some chord_callback"
    by (simp add: group_member_def)
  have g3: "\<not> Immutable chord_callback" by (simp add: chord_callback_def new_signature_def)
  note run3 = Process_group_member [of "''task_3''"]
  have s3: "E_SendTask ChordSite (set_Args [VInt 1] chord_callback) \<in> set (snd (snd (snd
     (Process ?w {} (group_member ''task_3'')))))"
    by (simp add: run3)
  have a3: "\<exists>taskStates.
      GroupTaskStates ?w (GroupUUID (group_member ''task_3'')) (GroupTaskCount (group_member ''task_3'')) =
        Inr taskStates \<and>
      set_Args [VInt 1] chord_callback =
        set_Args (Args chord_callback @ group_results taskStates) chord_callback"
    using g2 g3
    by (intro Process_immutable [OF run3, THEN conjunct2, THEN conjunct2, rule_format,
          of chord_callback]) simp
  show ?thesis
    using h1 run1 o1 a1 m1 m2 m3 s2 a2 g1 g2 g3 s3 a3 by blast
qed

text \<open>
  C6, as stated, fails: a member with \<open>Immutable\<close> set, whose chord callback has it
  unset, publishes the chord callback with the results of the group appended to its
  arguments.
\<close>

theorem immutable_member_chord_extended:
  "Immutable (group_member ''task_3'') \<and>
   ChordCallback (group_member ''task_3'') = Some chord_callback \<and>
   Args chord_callback = [] \<and>
   E_SendTask ChordSite (set_Args [VInt 1] chord_callback) \<in>
     set (snd (snd (snd (Process (example_worker [(''interface_valued'', interface_valued)]) {}
       (group_member ''task_3''))))) \<and>
   Args (set_Args [VInt 1] chord_callback) = Args chord_callback @ [VInt 1]"
  by (simp add: Process_group_member) (simp add: group_member_def chord_callback_def new_signature_def)

subsection \<open>The chord callback is published at most once\<close>

lemma filter_success_sends [simp]: "filter is_chord_send (map (E_SendTask SuccessCallback) cs) = []"
  by (induction cs) auto

lemma send_chord_count:
  "send_chord worker signature chord = (r, s', tr) \<Longrightarrow> length (filter is_chord_send tr) \<le> 1"
  by (auto simp: send_chord_def Let_def split: sum.splits prod.splits bool.splits)

lemma trigger_chord_after:
  assumes "trigger_chord worker b signature = (r, s', b', tr)"
    and "filter is_chord_send tr \<noteq> []"
  shows "\<exists>tr2. TriggerChord worker (GroupUUID signature) b = (Inr True, b') \<and>
               tr = E_TriggerChord (GroupUUID signature) # tr2"
  using assms
  by (auto simp: trigger_chord_def Let_def split: option.splits sum.splits prod.splits if_splits)

lemma trigger_chord_store:
  assumes "TriggerChord worker = TriggerChord_atomic"
    and "trigger_chord worker T signature = (r, s', T', tr)"
  shows "T' = T \<or> T' = insert (GroupUUID signature) T"
  using assms
  by (auto simp: trigger_chord_def Let_def TriggerChord_atomic_def
      split: option.splits sum.splits prod.splits if_splits)

lemma trigger_chord_count:
  assumes "trigger_chord worker b signature = (r, s', b', tr)"
  shows "length (filter is_chord_send tr) \<le> 1"
  using assms
  by (auto simp: trigger_chord_def Let_def split: option.splits sum.splits prod.splits if_splits
      dest: send_chord_count)

lemma taskSucceeded_after:
  assumes "taskSucceeded worker b signature results = (r, s', b', tr)"
    and "filter is_chord_send tr \<noteq> []"
  shows "\<exists>tr1 tr2. TriggerChord worker (GroupUUID signature) b = (Inr True, b') \<and>
               tr = tr1 @ E_TriggerChord (GroupUUID signature) # tr2 \<and>
               filter is_chord_send tr1 = []"
proof -
  from assms obtain s1 tr0 where
    t: "trigger_chord worker b s1 = (r, s', b', tr0)" "GroupUUID s1 = GroupUUID signature"
    and tr: "tr = (E_SetStateSuccess signature results #
                   map (E_SendTask SuccessCallback) (success_callbacks signature results) @
                   [E_GroupCompleted (GroupUUID signature) (GroupTaskCount signature)]) @ tr0 @
                  (if hasAMQPBackend worker then [E_PurgeGroupMeta (GroupUUID signature)] else [])"
    by (auto simp: taskSucceeded_def Let_def
        split: option.splits sum.splits prod.splits if_splits)
  from tr assms(2) have "filter is_chord_send tr0 \<noteq> []" by (auto split: if_splits)
  from trigger_chord_after [OF t(1) this] t(2) obtain tr2 where
    a: "TriggerChord worker (GroupUUID signature) b = (Inr True, b')"
    and b: "tr0 = E_TriggerChord (GroupUUID signature) # tr2" by auto
  show ?thesis
    apply (rule exI [of _ "E_SetStateSuccess signature results #
                   map (E_SendTask SuccessCallback) (success_callbacks signature results) @
                   [E_GroupCompleted (GroupUUID signature) (GroupTaskCount signature)]"])
    apply (rule exI [of _ "tr2 @ (if hasAMQPBackend worker then [E_PurgeGroupMeta (GroupUUID signature)] else [])"])
    using a b tr by simp
qed

lemma taskSucceeded_count:
  assumes "taskSucceeded worker b signature results = (r, s', b', tr)"
  shows "length (filter is_chord_send tr) \<le> 1"
  using assms
  by (auto simp: taskSucceeded_def Let_def
      split: option.splits sum.splits prod.splits if_splits dest: trigger_chord_count)

lemma taskSucceeded_store:
  assumes "TriggerChord worker = TriggerChord_atomic"
    and "taskSucceeded worker T signature results = (r, s', T', tr)"
  shows "T' = T \<or> T' = insert (GroupUUID signature) T"
  using assms
  by (auto simp: taskSucceeded_def Let_def
      split: option.splits sum.splits prod.splits if_splits dest: trigger_chord_store)

lemma Process_after:
  assumes "Process worker b signature = (r, s', b', tr)"
    and "filter is_chord_send tr \<noteq> []"
  shows "\<exists>tr1 tr2. TriggerChord worker (GroupUUID signature) b = (Inr True, b') \<and>
               tr = tr1 @ E_TriggerChord (GroupUUID signature) # tr2 \<and>
               filter is_chord_send tr1 = []"
  using assms(1)
proof (cases rule: Process_cases)
  case skip
  then have "filter is_chord_send tr = []" by (auto simp: filter_empty_conv)
  with assms(2) show ?thesis by simp
next
  case build
  from taskFailed_callbacks [OF build(1)] build(3) have "filter is_chord_send tr = []"
    by (auto simp: filter_empty_conv)
  with assms(2) show ?thesis by simp
next
  case error
  from handle_error_callbacks [OF error(1)] error(3) have "filter is_chord_send tr = []"
    by (auto simp: filter_empty_conv)
  with assms(2) show ?thesis by simp
next
  case (success task results r0 tr0)
  with assms(2) have "filter is_chord_send tr0 \<noteq> []" by simp
  from taskSucceeded_after [OF success(1) this] obtain tr1 tr2 where
    a: "TriggerChord worker (GroupUUID signature) b = (Inr True, b')"
    and b: "tr0 = tr1 @ E_TriggerChord (GroupUUID signature) # tr2"
    and c: "filter is_chord_send tr1 = []" by blast
  show ?thesis
    apply (rule exI [of _ "[E_SetStateReceived signature, E_SetStateStarted signature,
                            E_Call (call_args task)] @ tr1"])
    apply (rule exI [of _ tr2])
    using a b c success(2) by simp
qed

lemma Process_count:
  assumes "Process worker b signature = (r, s', b', tr)"
  shows "length (filter is_chord_send tr) \<le> 1"
  using assms
proof (cases rule: Process_cases)
  case skip
  then have "filter is_chord_send tr = []" by (auto simp: filter_empty_conv)
  then show ?thesis by simp
next
  case build
  from taskFailed_callbacks [OF build(1)] build(3) have "filter is_chord_send tr = []"
    by (auto simp: filter_empty_conv)
  then show ?thesis by simp
next
  case error
  from handle_error_callbacks [OF error(1)] error(3) have "filter is_chord_send tr = []"
    by (auto simp: filter_empty_conv)
  then show ?thesis by simp
next
  case success
  from taskSucceeded_count [OF success(1)] success(2) show ?thesis by simp
qed

lemma Process_store:
  assumes "TriggerChord worker = TriggerChord_atomic"
    and "Process worker T signature = (r, s', T', tr)"
  shows "T' = T \<or> T' = insert (GroupUUID signature) T"
  using assms(2)
proof (cases rule: Process_cases)
  case success
  from taskSucceeded_store [OF assms(1) success(1)] show ?thesis .
qed auto


lemma run_workers_count:
  assumes "\<forall>(worker, signature) \<in> set ws. TriggerChord worker = TriggerChord_atomic \<and> GroupUUID signature = g"
  shows "length (filter is_chord_send (run_workers T ws)) \<le> (if g \<in> T then 0 else 1)"
  using assms
proof (induction ws arbitrary: T)
  case Nil
  show ?case by simp
next
  case (Cons p ws)
  obtain worker signature where p: "p = (worker, signature)" by (cases p)
  obtain r s' T' tr where run: "Process worker T signature = (r, s', T', tr)"
    using prod_cases4 by blast
  from Cons.prems have w: "TriggerChord worker = TriggerChord_atomic" "GroupUUID signature = g"
    unfolding p by simp_all
  from Cons.prems have rest: "\<forall>(worker, signature) \<in> set ws.
      TriggerChord worker = TriggerChord_atomic \<and> GroupUUID signature = g"
    by simp
  have store: "T' = T \<or> T' = insert g T"
    using Process_store [OF w(1) run] w(2) by simp
  have count: "length (filter is_chord_send tr) \<le> 1" by (rule Process_count [OF run])
  have ih: "length (filter is_chord_send (run_workers T' ws)) \<le> (if g \<in> T' then 0 else 1)"
    by (rule Cons.IH [OF rest])
  have fired: "g \<notin> T \<and> g \<in> T'" if "filter is_chord_send tr \<noteq> []"
  proof -
    from Process_after [OF run that] w
    have "TriggerChord_atomic g T = (Inr True, T')" by auto
    then show ?thesis by (auto simp: TriggerChord_atomic_def)
  qed
  have unfold: "run_workers T (p # ws) = tr @ run_workers T' ws"
    by (simp add: p run)
  show ?case
  proof (cases "filter is_chord_send tr = []")
    case True
    have "(if g \<in> T' then 0 else 1) \<le> (if g \<in> T then 0 else (1::nat))"
      using store by auto
    with ih True show ?thesis unfolding unfold by simp
  next
    case False
    from fired [OF False] ih have "length (filter is_chord_send (run_workers T' ws)) = 0" by simp
    with count fired [OF False] show ?thesis unfolding unfold by simp
  qed
qed


lemma trigger_answers_triggered: "g \<in> T \<Longrightarrow> filter id (trigger_answers g T n) = []"
  by (induction n arbitrary: T) (auto simp: TriggerChord_atomic_def)

text \<open>
  C1. (i) Whenever \<^verbatim>\<open>Process\<close> publishes a chord callback, with any backend at all,
  \<^verbatim>\<open>TriggerChord\<close> has answered true for the group of the signature, and that call
  comes before the publication. (ii) With the atomic \<^verbatim>\<open>TriggerChord\<close> of the spec, any
  number of workers that process signatures of one group, their \<^verbatim>\<open>TriggerChord\<close> calls
  served in any order and their other answers being whatever they are, publish the chord
  callback at most once altogether. (iii) Of any positive number of calls of the atomic
  \<^verbatim>\<open>TriggerChord\<close> for a group not yet triggered, exactly one is answered true.
\<close>

theorem chord_published_at_most_once:
  "(\<forall>worker b signature r s' b' tr.
      Process worker b signature = (r, s', b', tr) \<and> filter is_chord_send tr \<noteq> [] \<longrightarrow>
      (\<exists>tr1 tr2. TriggerChord worker (GroupUUID signature) b = (Inr True, b') \<and>
                 tr = tr1 @ E_TriggerChord (GroupUUID signature) # tr2 \<and>
                 filter is_chord_send tr1 = [])) \<and>
   ((\<forall>(worker, signature) \<in> set ws.
        TriggerChord worker = TriggerChord_atomic \<and> GroupUUID signature = g) \<longrightarrow>
      length (filter is_chord_send (run_workers T ws)) \<le> 1) \<and>
   (g \<notin> T \<longrightarrow> length (filter id (trigger_answers g T (Suc n))) = 1)"
proof (intro conjI allI impI)
  fix worker :: "'a env" and b signature r s' b' tr
  assume a: "Process worker b signature = (r, s', b', tr) \<and> filter is_chord_send tr \<noteq> []"
  show "\<exists>tr1 tr2. TriggerChord worker (GroupUUID signature) b = (Inr True, b') \<and>
                 tr = tr1 @ E_TriggerChord (GroupUUID signature) # tr2 \<and>
                 filter is_chord_send tr1 = []"
    by (rule Process_after [OF conjunct1 [OF a] conjunct2 [OF a]])
next
  assume "\<forall>(worker, signature) \<in> set ws.
        TriggerChord worker = TriggerChord_atomic \<and> GroupUUID signature = g"
  from run_workers_count [OF this, of T]
  have "length (filter is_chord_send (run_workers T ws)) \<le> (if g \<in> T then 0 else 1)" .
  also have "\<dots> \<le> 1" by simp
  finally show "length (filter is_chord_send (run_workers T ws)) \<le> 1" .
next
  assume "g \<notin> T"
  then show "length (filter id (trigger_answers g T (Suc n))) = 1"
    by (simp add: TriggerChord_atomic_def trigger_answers_triggered)
qed

theorem chord_published_at_most_once_witness:
  "TriggerChord (example_worker [(''interface_valued'', interface_valued)]) = TriggerChord_atomic \<and>
   GroupUUID (group_member ''task_3'') = ''group_1'' \<and>
   GroupUUID (group_member ''task_4'') = ''group_1'' \<and>
   filter is_chord_send (snd (snd (snd
     (Process (example_worker [(''interface_valued'', interface_valued)]) {} (group_member ''task_3''))))) =
     [E_SendTask ChordSite (set_Args [VInt 1] chord_callback)] \<and>
   TriggerChord (example_worker [(''interface_valued'', interface_valued)]) ''group_1'' {} =
     (Inr True, {''group_1''}) \<and>
   length (filter is_chord_send (run_workers {}
     [(example_worker [(''interface_valued'', interface_valued)], group_member ''task_3''),
      (example_worker [(''interface_valued'', interface_valued)], group_member ''task_4'')])) \<le> 1 \<and>
   ''group_1'' \<notin> ({} :: string set) \<and>
   length (filter id (trigger_answers ''group_1'' {} (Suc 2))) = 1"
proof -
  let ?w = "example_worker [(''interface_valued'', interface_valued)]"
  let ?ws = "[(?w, group_member ''task_3''), (?w, group_member ''task_4'')]"
  have h1: "TriggerChord ?w = TriggerChord_atomic" by (simp add: example_worker_def)
  have h2: "GroupUUID (group_member ''task_3'') = ''group_1''"
    "GroupUUID (group_member ''task_4'') = ''group_1''"
    by (simp_all add: group_member_def)
  have h3: "\<forall>(worker, signature) \<in> set ?ws.
      TriggerChord worker = TriggerChord_atomic \<and> GroupUUID signature = ''group_1''"
    using h1 h2 by simp
  have h4: "''group_1'' \<notin> ({} :: string set)" by simp
  have h5: "filter is_chord_send (snd (snd (snd (Process ?w {} (group_member ''task_3''))))) =
     [E_SendTask ChordSite (set_Args [VInt 1] chord_callback)]"
    by (simp add: Process_group_member)
  have h6: "TriggerChord ?w ''group_1'' {} = (Inr True, {''group_1''})"
    by (simp add: h1 TriggerChord_atomic_def)
  note t = chord_published_at_most_once [where ws = ?ws and g = "''group_1''" and T = "{}" and n = 2]
  from t h3 have c2: "length (filter is_chord_send (run_workers {} ?ws)) \<le> 1" by blast
  from t h4 have c3: "length (filter id (trigger_answers ''group_1'' {} (Suc 2))) = 1" by blast
  show ?thesis using h1 h2 h4 h5 h6 c2 c3 by simp
qed

subsection \<open>Panics of the task function\<close>






subsection \<open>The values returned by the task function\<close>

lemma convert_results_ok:
  "\<forall>r \<in> set rs. rval r \<noteq> VNil \<Longrightarrow> convert_results rs = (map wrap_result rs, None)"
proof (induction rs)
  case Nil
  show ?case by simp
next
  case (Cons r rs)
  then have "rval r \<noteq> VNil" and ih: "convert_results rs = (map wrap_result rs, None)" by simp_all
  then have "TypeOf (rval r) \<noteq> None" by (cases "rval r") auto
  then obtain n k where "TypeOf (rval r) = Some (n, k)" by auto
  with ih show ?case by (simp add: wrap_result_def type_tag_def)
qed

lemma call_body_Returns:
  assumes "Invoke (TaskFunc t) args = Returns results" and "results \<noteq> []"
  shows "call_body t args =
     (case IsNil (last results) of
        Panic e \<Rightarrow> Raised e []
      | Return isnil \<Rightarrow>
          if \<not> isnil then
            (if implements_retriable (rtype (last results)) then
               (case rval (last results) of
                  VError (ErrRetryTaskLater m d) \<Rightarrow> Returned [] (Some (ErrRetryTaskLater m d))
                | v \<Rightarrow> Raised (type_assertion_failed v ''tasks.ErrRetryTaskLater'') [])
             else if \<not> implements_error (rtype (last results)) then
               Returned [] (Some ErrLastReturnValueMustBeError)
             else
               (case rval (last results) of
                  VError e \<Rightarrow> Returned [] (Some e)
                | v \<Rightarrow> Raised (error_assertion_failed v) []))
          else
            (case convert_results (butlast results) of
               (trs, Some e) \<Rightarrow> Raised e trs
             | (trs, None) \<Rightarrow> Returned trs None))"
proof -
  have l: "results ! (length results - Suc 0) = last results"
    "take (length results - Suc 0) results = butlast results"
    using assms(2) by (simp_all add: last_conv_nth butlast_conv_take)
  show ?thesis
    using assms by (simp add: call_body_def Let_def l split: go.split)
qed

text \<open>
  C8, as amended. Of a task function that returns (does not panic): with no results,
  \<^verbatim>\<open>Call\<close> yields \<^verbatim>\<open>ErrTaskReturnsNoValue\<close>. When the last result is non-nil, and of a
  declared type that can be nil (\<^verbatim>\<open>IsNil\<close> answers false): if the declared type
  implements \<^verbatim>\<open>Retriable\<close> and the value is an \<^verbatim>\<open>ErrRetryTaskLater\<close>, that value is the
  error; if the declared type does not implement \<^verbatim>\<open>Retriable\<close> and implements
  \<^verbatim>\<open>error\<close>, the value itself is the error; if the declared type implements neither,
  the error is \<^verbatim>\<open>ErrLastReturnValueMustBeError\<close>; and there are no task results. When the
  last result is nil and none of the results before it is the nil interface, these are
  wrapped, in order, as task results whose type is the name of the dynamic type of the
  value, and there is no error.
\<close>

theorem Call_return_values:
  assumes "Invoke (TaskFunc t) (call_args t) = Returns results"
  shows "(results = [] \<longrightarrow> Call t = ([], Some ErrTaskReturnsNoValue, NoStackFrames)) \<and>
    (results \<noteq> [] \<and> IsNil (last results) = Return False \<longrightarrow>
       (\<forall>m d. implements_retriable (rtype (last results)) \<and>
              rval (last results) = VError (ErrRetryTaskLater m d) \<longrightarrow>
              Call t = ([], Some (ErrRetryTaskLater m d), NoStackFrames)) \<and>
       (\<forall>e. \<not> implements_retriable (rtype (last results)) \<and>
            implements_error (rtype (last results)) \<and> rval (last results) = VError e \<longrightarrow>
            Call t = ([], Some e, NoStackFrames)) \<and>
       (\<not> implements_retriable (rtype (last results)) \<and>
        \<not> implements_error (rtype (last results)) \<longrightarrow>
        Call t = ([], Some ErrLastReturnValueMustBeError, NoStackFrames))) \<and>
    (results \<noteq> [] \<and> IsNil (last results) = Return True \<and>
     (\<forall>r \<in> set (butlast results). rval r \<noteq> VNil) \<longrightarrow>
       Call t = (map wrap_result (butlast results), None, NoStackFrames))"
proof (intro conjI impI allI)
  assume "results = []"
  with assms show "Call t = ([], Some ErrTaskReturnsNoValue, NoStackFrames)"
    by (simp add: Call_def call_body_def)
next
  fix m d
  assume a: "results \<noteq> [] \<and> IsNil (last results) = Return False"
    and b: "implements_retriable (rtype (last results)) \<and>
            rval (last results) = VError (ErrRetryTaskLater m d)"
  show "Call t = ([], Some (ErrRetryTaskLater m d), NoStackFrames)"
    using a b by (simp add: Call_def call_body_Returns [OF assms])
next
  fix e
  assume a: "results \<noteq> [] \<and> IsNil (last results) = Return False"
    and b: "\<not> implements_retriable (rtype (last results)) \<and>
            implements_error (rtype (last results)) \<and> rval (last results) = VError e"
  show "Call t = ([], Some e, NoStackFrames)"
    using a b by (simp add: Call_def call_body_Returns [OF assms])
next
  assume a: "results \<noteq> [] \<and> IsNil (last results) = Return False"
    and b: "\<not> implements_retriable (rtype (last results)) \<and>
            \<not> implements_error (rtype (last results))"
  show "Call t = ([], Some ErrLastReturnValueMustBeError, NoStackFrames)"
    using a b by (simp add: Call_def call_body_Returns [OF assms])
next
  assume a: "results \<noteq> [] \<and> IsNil (last results) = Return True \<and>
     (\<forall>r \<in> set (butlast results). rval r \<noteq> VNil)"
  then have "convert_results (butlast results) = (map wrap_result (butlast results), None)"
    by (intro convert_results_ok) simp
  with a show "Call t = (map wrap_result (butlast results), None, NoStackFrames)"
    by (simp add: Call_def call_body_Returns [OF assms])
qed

text \<open>
  C8, as stated, fails: the tests are made on the declared type of the last result, so
  an error value returned by \<^verbatim>\<open>func() interface{}\<close>, which is non-nil and implements
  \<^verbatim>\<open>error\<close>, is not the error that \<^verbatim>\<open>Call\<close> yields:
  \<^verbatim>\<open>ErrLastReturnValueMustBeError\<close> is.
\<close>

theorem Call_untyped_error:
  "Invoke (TaskFunc (bare_task untyped_error)) (call_args (bare_task untyped_error)) =
     Returns [\<lparr>rtype = empty_interface_decl, rval = VError (ErrorString ''some error'')\<rparr>] \<and>
   IsNil \<lparr>rtype = empty_interface_decl, rval = VError (ErrorString ''some error'')\<rparr> = Return False \<and>
   Call (bare_task untyped_error) = ([], Some ErrLastReturnValueMustBeError, NoStackFrames) \<and>
   Call (bare_task untyped_error) \<noteq> ([], Some (ErrorString ''some error''), NoStackFrames)"
  by (simp add: Call_def call_body_def call_args_def bare_task_def untyped_error_def
      IsNil_def nillable_def empty_interface_decl_def)


theorem Call_return_values_witness:
  "Invoke (TaskFunc (bare_task returns_nothing)) (call_args (bare_task returns_nothing)) = Returns [] \<and>
   Call (bare_task returns_nothing) = ([], Some ErrTaskReturnsNoValue, NoStackFrames) \<and>
   Invoke (TaskFunc (bare_task typed_retriable)) (call_args (bare_task typed_retriable)) =
     Returns [\<lparr>rtype = retriable_decl, rval = VError (ErrRetryTaskLater ''later'' Second)\<rparr>] \<and>
   Call (bare_task typed_retriable) = ([], Some (ErrRetryTaskLater ''later'' Second), NoStackFrames) \<and>
   Invoke (TaskFunc (bare_task standard)) (call_args (bare_task standard)) =
     Returns [\<lparr>rtype = error_type_decl, rval = VError (ErrorString ''some error'')\<rparr>] \<and>
   Call (bare_task standard) = ([], Some (ErrorString ''some error''), NoStackFrames) \<and>
   Invoke (TaskFunc (bare_task interface_valued)) (call_args (bare_task interface_valued)) =
     Returns [\<lparr>rtype = empty_interface_decl, rval = VFloat64 (Finite (7 / 2))\<rparr>, nil_error] \<and>
   IsNil nil_error = Return True \<and>
   Call (bare_task interface_valued) =
     ([\<lparr>Type = ''float64'', Value = VFloat64 (Finite (7 / 2))\<rparr>], None, NoStackFrames)"
proof -
  have a1: "Invoke (TaskFunc (bare_task returns_nothing)) (call_args (bare_task returns_nothing)) = Returns []"
    by (simp add: call_args_def bare_task_def returns_nothing_def)
  have a2: "Invoke (TaskFunc (bare_task typed_retriable)) (call_args (bare_task typed_retriable)) =
     Returns [\<lparr>rtype = retriable_decl, rval = VError (ErrRetryTaskLater ''later'' Second)\<rparr>]"
    by (simp add: call_args_def bare_task_def typed_retriable_def)
  have a3: "Invoke (TaskFunc (bare_task standard)) (call_args (bare_task standard)) =
     Returns [\<lparr>rtype = error_type_decl, rval = VError (ErrorString ''some error'')\<rparr>]"
    by (simp add: call_args_def bare_task_def standard_def)
  have a4: "Invoke (TaskFunc (bare_task interface_valued)) (call_args (bare_task interface_valued)) =
     Returns [\<lparr>rtype = empty_interface_decl, rval = VFloat64 (Finite (7 / 2))\<rparr>, nil_error]"
    by (simp add: call_args_def bare_task_def interface_valued_def)
  have n: "IsNil nil_error = Return True"
    by (simp add: IsNil_def nil_error_def nillable_def error_type_decl_def)
  have c1: "Call (bare_task returns_nothing) = ([], Some ErrTaskReturnsNoValue, NoStackFrames)"
    using Call_return_values [OF a1] by simp
  have c2: "Call (bare_task typed_retriable) = ([], Some (ErrRetryTaskLater ''later'' Second), NoStackFrames)"
    using Call_return_values [OF a2]
    by (simp add: IsNil_def nillable_def retriable_decl_def)
  have c3: "Call (bare_task standard) = ([], Some (ErrorString ''some error''), NoStackFrames)"
    using Call_return_values [OF a3]
    by (simp add: IsNil_def nillable_def error_type_decl_def)
  have c4: "Call (bare_task interface_valued) =
     ([\<lparr>Type = ''float64'', Value = VFloat64 (Finite (7 / 2))\<rparr>], None, NoStackFrames)"
    using Call_return_values [OF a4] n
    by (simp add: wrap_result_def type_tag_def)
  show ?thesis using a1 a2 a3 a4 n c1 c2 c3 c4 by simp
qed

text \<open>
  Two panics inside \<^verbatim>\<open>Call\<close> itself, both recovered into the error: \<^verbatim>\<open>IsNil\<close> on a last
  result of a kind that cannot be nil, and the name of the type of a nil result.
\<close>

lemma Call_returns_string:
  "Call (bare_task returns_string) =
     ([], Some (ValueError ''reflect.Value.IsNil'' KString), CurrentStackFrames)"
  by (simp add: Call_def call_body_def call_args_def bare_task_def returns_string_def
      IsNil_def nillable_def string_decl_def PanicNil_def)

lemma Call_returns_nil_value:
  "Call (bare_task returns_nil_value) =
     ([], Some MemoryError, CurrentStackFrames)"
  by (simp add: Call_def call_body_def call_args_def bare_task_def returns_nil_value_def
      IsNil_def nillable_def nil_error_def error_type_decl_def empty_interface_decl_def
      nil_pointer_dereference_def PanicNil_def)

subsection \<open>Binding the arguments\<close>

text \<open>
  \<^verbatim>\<open>TestTaskCallInvalidArgRobustnessError\<close>: \<^verbatim>\<open>func(x int) error\<close> with the argument
  \<^verbatim>\<open>true\<close> is built, and the call panics inside \<^verbatim>\<open>reflect\<close>.
\<close>

lemma Call_bool_as_int:
  "New impl takes_int [VBool True] = Return (Inr ((bare_task takes_int)\<lparr>TaskArgs := [VBool True]\<rparr>)) \<and>
   Call ((bare_task takes_int)\<lparr>TaskArgs := [VBool True]\<rparr>) =
     ([], Some (ErrorString ''reflect: Call using bool as type int''), CurrentStackFrames)"
  by (simp add: New_def ReflectArgs_def Call_def call_body_def call_args_def bare_task_def
      takes_int_def func_def reflect_Call_def assignable_def dynamic_type_name_def int_decl_def
      IsContextType_def PanicNil_def Let_def)

text \<open>What \<^verbatim>\<open>ReflectArgs\<close> compares: the arguments and all the parameters.\<close>

lemma ReflectArgs_arity:
  "(\<exists>err. ReflectArgs impl t args taskFunc = Return (Inl err)) \<longleftrightarrow>
   length args \<noteq> length (In taskFunc)"
  by (auto simp: ReflectArgs_def Let_def split: go.splits)

text \<open>
  C2 fails on the code. \<^verbatim>\<open>ReflectArgs\<close> compares the number of arguments with
  \<^verbatim>\<open>NumIn()\<close>, which counts the leading context parameter: the function
  \<^verbatim>\<open>func(c context.Context) (interface{}, error)\<close> of \<^verbatim>\<open>TestTaskCallWithContext\<close>, given
  no arguments, is refused with an arity error (1 against 0), where the claim and the
  test expect a task.
\<close>

theorem New_with_context_no_args:
  "In with_context = [context_decl] \<and> IsContextType context_decl \<and>
   New (\<lambda>f. 0) with_context [] =
     Return (Inl (ErrorString
       ''Reflect task args error: Number of task arguments 1 does not match number of message arguments 0''))"
  by (simp add: New_def ReflectArgs_def arity_error_def with_context_def IsContextType_def
      context_decl_def show_nat.simps digit_def Let_def)

lemma construct_args_float:
  "construct_args impl ins k args = Return vs \<Longrightarrow> i < length args \<Longrightarrow>
   type_kind (ins ! (k + i)) = KInt \<Longrightarrow> args ! i = VFloat64 (Finite x) \<Longrightarrow> fits_int (trunc x) \<Longrightarrow>
   vs ! i = VInt (trunc x)"
proof (induction args arbitrary: k i vs)
  case Nil
  then show ?case by simp
next
  case (Cons arg args)
  from Cons.prems(1) obtain v vs' where vs: "vs = v # vs'"
    and rest: "construct_args impl ins (Suc k) args = Return vs'"
    by (auto simp: Let_def split: option.splits go.splits if_splits val.splits)
  show ?case
  proof (cases i)
    case 0
    with Cons.prems show ?thesis
      by (auto simp: Let_def split: option.splits go.splits if_splits)
  next
    case (Suc j)
    with Cons.prems have "vs' ! j = VInt (trunc x)"
      by (intro Cons.IH [OF rest]) auto
    with Suc vs show ?thesis by simp
  qed
qed

lemma trunc_towards_zero:
  "\<bar>real_of_int (trunc x)\<bar> \<le> \<bar>x\<bar> \<and> \<bar>x - real_of_int (trunc x)\<bar> < 1"
proof (cases "0 \<le> x")
  case True
  have a: "real_of_int \<lfloor>x\<rfloor> \<le> x" "x < real_of_int \<lfloor>x\<rfloor> + 1" by linarith+
  have b: "0 \<le> real_of_int \<lfloor>x\<rfloor>" using True by simp
  have "\<bar>real_of_int \<lfloor>x\<rfloor>\<bar> \<le> \<bar>x\<bar>" using a b True by linarith
  moreover have "\<bar>x - real_of_int \<lfloor>x\<rfloor>\<bar> < 1" using a by linarith
  ultimately show ?thesis using True by (simp add: trunc_def)
next
  case False
  have a: "real_of_int \<lceil>x\<rceil> - 1 < x" "x \<le> real_of_int \<lceil>x\<rceil>" by linarith+
  have b: "real_of_int \<lceil>x\<rceil> \<le> 0" using False by simp
  have "\<bar>real_of_int \<lceil>x\<rceil>\<bar> \<le> \<bar>x\<bar>" using a b False by linarith
  moreover have "\<bar>x - real_of_int \<lceil>x\<rceil>\<bar> < 1" using a by linarith
  ultimately show ?thesis using False by (simp add: trunc_def)
qed

lemma construct_args_other:
  "construct_args impl ins k args = Return vs \<Longrightarrow> i < length args \<Longrightarrow>
   type_kind (ins ! (k + i)) \<noteq> KInt \<Longrightarrow> vs ! i = args ! i"
proof (induction args arbitrary: k i vs)
  case Nil
  then show ?case by simp
next
  case (Cons arg args)
  from Cons.prems(1) obtain v vs' where vs: "vs = v # vs'"
    and rest: "construct_args impl ins (Suc k) args = Return vs'"
    by (auto simp: Let_def split: option.splits go.splits if_splits val.splits)
  show ?case
  proof (cases i)
    case 0
    with Cons.prems show ?thesis
      by (auto simp: Let_def split: option.splits go.splits if_splits)
  next
    case (Suc j)
    with Cons.prems have "vs' ! j = args ! j"
      by (intro Cons.IH [OF rest]) auto
    with Suc vs show ?thesis by simp
  qed
qed

lemma construct_args_length:
  "construct_args impl ins k args = Return vs \<Longrightarrow> length vs = length args"
  by (induction args arbitrary: k vs)
    (auto simp: Let_def split: option.splits go.splits if_splits val.splits)

text \<open>
  C5, as amended. A task that is built has as many arguments as the signature. When
  the parameter of the task function at the position of an argument (counted over all
  parameters, as \<^verbatim>\<open>In(i)\<close>) is of kind \<^verbatim>\<open>int\<close> and the argument is a finite float64 whose
  truncation fits \<^verbatim>\<open>int\<close>, the task has \<open>trunc\<close> of the argument, as an \<^verbatim>\<open>int\<close>, at
  that position, and \<open>trunc\<close> rounds towards zero. When the parameter is of any other
  kind, the other integer kinds included, the task has the argument as it is.
\<close>

theorem New_float_to_int:
  assumes "New impl taskFunc args = Return (Inr t)"
    and "i < length args"
  shows "length (TaskArgs t) = length args \<and>
         (\<forall>x. type_kind (In taskFunc ! i) = KInt \<and> args ! i = VFloat64 (Finite x) \<and>
              fits_int (trunc x) \<longrightarrow>
              TaskArgs t ! i = VInt (trunc x) \<and>
              \<bar>real_of_int (trunc x)\<bar> \<le> \<bar>x\<bar> \<and> \<bar>x - real_of_int (trunc x)\<bar> < 1) \<and>
         (type_kind (In taskFunc ! i) \<noteq> KInt \<longrightarrow> TaskArgs t ! i = args ! i)"
proof -
  from assms(1) obtain vs where c: "construct_args impl (In taskFunc) 0 args = Return vs"
    and t: "TaskArgs t = vs"
    by (auto simp: New_def ReflectArgs_def Let_def split: go.splits sum.splits if_splits)
  have 1: "vs ! i = VInt (trunc x)"
    if "type_kind (In taskFunc ! i) = KInt" "args ! i = VFloat64 (Finite x)" "fits_int (trunc x)" for x
    using construct_args_float [OF c assms(2) _ that(2,3)] that(1) by simp
  have 2: "vs ! i = args ! i" if "type_kind (In taskFunc ! i) \<noteq> KInt"
    using construct_args_other [OF c assms(2)] that by simp
  from 1 2 t construct_args_length [OF c] trunc_towards_zero show ?thesis by simp
qed

theorem New_float_to_int_witness:
  "New (\<lambda>f. 0) takes_int [VFloat64 (Finite (- 5 / 2))] =
     Return (Inr \<lparr>TaskFunc = takes_int, UseContext = False, Context = Background,
                  TaskArgs = [VInt (- 2)]\<rparr>) \<and>
   type_kind (In takes_int ! 0) = KInt \<and> fits_int (trunc (- 5 / 2)) \<and> trunc (- 5 / 2) = - 2 \<and>
   type_kind (In takes_int64 ! 0) \<noteq> KInt \<and>
   (\<exists>t. New (\<lambda>f. 0) takes_int64 [VFloat64 (Finite (5 / 2))] = Return (Inr t) \<and>
        TaskArgs t ! 0 = VFloat64 (Finite (5 / 2)))"
proof -
  have tr: "trunc (- (5 / 2)) = - 2" by (simp add: trunc_def)
  have h1: "New (\<lambda>f. 0) takes_int [VFloat64 (Finite (- 5 / 2))] =
     Return (Inr \<lparr>TaskFunc = takes_int, UseContext = False, Context = Background,
                  TaskArgs = [VInt (trunc (- 5 / 2))]\<rparr>)"
    by (simp add: New_def ReflectArgs_def takes_int_def int_decl_def IsContextType_def Let_def
        fits_int_def tr)
  have h3: "type_kind (In takes_int ! 0) = KInt" by (simp add: takes_int_def int_decl_def)
  have h5: "fits_int (trunc (- 5 / 2))" by (simp add: tr fits_int_def)
  from New_float_to_int [OF h1, of 0, THEN conjunct2, THEN conjunct1, rule_format, of "- 5 / 2"] h3 h5
  have "TaskArgs \<lparr>TaskFunc = takes_int, UseContext = False, Context = Background,
                  TaskArgs = [VInt (trunc (- 5 / 2))]\<rparr> ! 0 = VInt (trunc (- 5 / 2))"
    by simp
  with h1 h3 h5 tr have first: "New (\<lambda>f. 0) takes_int [VFloat64 (Finite (- 5 / 2))] =
     Return (Inr \<lparr>TaskFunc = takes_int, UseContext = False, Context = Background,
                  TaskArgs = [VInt (- 2)]\<rparr>)" by simp
  have k: "type_kind (In takes_int64 ! 0) \<noteq> KInt" by (simp add: takes_int64_def int64_decl_def)
  obtain t where n: "New (\<lambda>f. 0) takes_int64 [VFloat64 (Finite (5 / 2))] = Return (Inr t)"
    by (simp add: New_def ReflectArgs_def takes_int64_def int64_decl_def IsContextType_def Let_def)
  from New_float_to_int [OF n, of 0, THEN conjunct2, THEN conjunct2, rule_format] k
  have "TaskArgs t ! 0 = VFloat64 (Finite (5 / 2))" by simp
  with n have second: "\<exists>t. New (\<lambda>f. 0) takes_int64 [VFloat64 (Finite (5 / 2))] = Return (Inr t) \<and>
        TaskArgs t ! 0 = VFloat64 (Finite (5 / 2))" by blast
  show ?thesis using first h3 h5 tr k second by simp
qed

text \<open>
  C5, as stated, fails: only the kind \<^verbatim>\<open>int\<close> is tested. For a parameter of type
  \<^verbatim>\<open>int64\<close> the float64 argument 2.5 is passed on as it is.
\<close>

theorem New_float_to_int64:
  "type_kind (In takes_int64 ! 0) = KInt64 \<and>
   New (\<lambda>f. 0) takes_int64 [VFloat64 (Finite (5 / 2))] =
     Return (Inr \<lparr>TaskFunc = takes_int64, UseContext = False, Context = Background,
                  TaskArgs = [VFloat64 (Finite (5 / 2))]\<rparr>)"
  by (simp add: New_def ReflectArgs_def takes_int64_def int64_decl_def IsContextType_def Let_def)

end
